theory Spec2Isabelle
  imports Main "HOL-Library.Word" "HOL-Library.Monad_Syntax"
begin

section \<open>EPANET-MSX core toolkit: data model\<close>

text \<open>
  A shallow embedding of the project model and of the toolkit functions of
  \<^verbatim>\<open>MSX Core/src/coretoolkit.c\<close>, and of \<^verbatim>\<open>deleteObjects\<close> of
  \<^verbatim>\<open>Legacy DLL/src/msxproj.c\<close>.

  \<^item> A C \<^verbatim>\<open>double\<close> is its 64-bit pattern and a \<^verbatim>\<open>float\<close> (\<^verbatim>\<open>REAL4\<close>) its 32-bit
    pattern: the toolkit functions store and copy these values, they never compute with
    them. The only constants are \<^verbatim>\<open>0.0\<close> (all bits clear) and \<^verbatim>\<open>1.0\<close>, and the
    only test is \<^verbatim>\<open>level < 0.0\<close> in \<^verbatim>\<open>MSXsetsource\<close>.
  \<^item> A C \<^verbatim>\<open>int\<close> or \<^verbatim>\<open>long\<close> is an \<^typ>\<open>int\<close>: the counts and indices of a project stay
    far below \<open>2^31\<close>.
  \<^item> An array is the list of its slots, slot 0 first (the toolkit indexes from 1);
    \<^verbatim>\<open>NULL\<close> is the empty list. A read or write outside the allocated slots is a memory
    fault, written \<open>None\<close> in the result of the function that does it.
  \<^item> A \<^verbatim>\<open>char *\<close> is the string it points to at the time of the call. The add
    functions store the caller's pointer (\<^verbatim>\<open>MSX->Node[i].id = id\<close>), not a copy of the
    string, so a stored name reads as it does here only while the caller leaves that
    buffer unchanged, which is assumed throughout.
  \<^item> \<^verbatim>\<open>calloc\<close>, \<^verbatim>\<open>realloc\<close> and \<^verbatim>\<open>malloc\<close> succeed; the branches taken when they return
    \<^verbatim>\<open>NULL\<close> are left out. A slot that \<^verbatim>\<open>realloc\<close> adds holds the all-zero struct until
    the function assigns its fields (C leaves it indeterminate): a pointer that was
    never assigned is \<^verbatim>\<open>NULL\<close> here, and following it is a fault.
\<close>

type_synonym double = "64 word"
type_synonym REAL4 = "32 word"

definition dbl_zero :: double where
  "dbl_zero = 0"

definition dbl_one :: double where
  "dbl_one = 0x3FF0000000000000"

text \<open>\<^verbatim>\<open>x < 0.0\<close> on an IEEE-754 double: the sign bit is set, and \<^verbatim>\<open>x\<close> is neither
  \<open>-0.0\<close> nor a NaN.\<close>

definition dbl_is_nan :: "double \<Rightarrow> bool" where
  "dbl_is_nan x = (take_bit 63 x > 0x7FF0000000000000)"

definition dbl_lt_zero :: "double \<Rightarrow> bool" where
  "dbl_lt_zero x = (bit x 63 \<and> take_bit 63 x \<noteq> 0 \<and> \<not> dbl_is_nan x)"

text \<open>The object types of \<^verbatim>\<open>enum ObjectType\<close> that index \<^verbatim>\<open>Nobjects\<close> and the hash
  tables. The enumeration is declared in a header that is not among the sources, so
  the enumerators stay symbolic; \<open>OTHER_OBJECT k\<close> is any other \<^verbatim>\<open>int\<close> a caller
  passes as a type code. \<open>TERM_OBJ\<close> is the enumerator \<^verbatim>\<open>TERM\<close> (a name that
  Isabelle reserves).\<close>

datatype objtype =
    NODE | LINK | TANK | SPECIES | TERM_OBJ | PARAMETER | CONSTANT | PATTERN
  | OTHER_OBJECT int

text \<open>Return codes. \<open>OK\<close> is \<^verbatim>\<open>0\<close>; \<open>E101\<close> is the literal \<^verbatim>\<open>101\<close> that
  coretoolkit.c returns in places; \<open>ERR_OTHER k\<close> is any further nonzero code that a
  helper outside the sources (\<^verbatim>\<open>checkID\<close>, \<^verbatim>\<open>MSXqual_step\<close>) may return.\<close>

datatype retcode =
    OK
  | E101
  | ERR_MEMORY
  | ERR_INVALID_OBJECT_TYPE
  | ERR_INVALID_OBJECT_INDEX
  | ERR_UNDEFINED_OBJECT_ID
  | ERR_INVALID_OBJECT_PARAMS
  | ERR_MSX_NOT_OPENED
  | ERR_KEYWORD
  | ERR_NUMBER
  | ERR_NAME
  | ERR_DUP_EXPR
  | ERR_MATH_EXPR
  | ERR_OTHER int

text \<open>The option codes of \<^verbatim>\<open>MSXaddOption\<close> and the unit codes of \<^verbatim>\<open>MSXaddSpecies\<close>,
  symbolic for the same reason.\<close>

datatype optiontype =
    AREA_UNITS_OPTION | RATE_UNITS_OPTION | SOLVER_OPTION | COUPLING_OPTION
  | TIMESTEP_OPTION | RTOL_OPTION | ATOL_OPTION | COMPILER_OPTION
  | OTHER_OPTION int

datatype unitstype = MG | UG | MOLE | MMOLE | OTHER_UNITS int

text \<open>Species kinds and source kinds: the values are given in the doc comments of
  \<^verbatim>\<open>MSXgetspecies\<close> and \<^verbatim>\<open>MSXgetsource\<close>.\<close>

definition BULK :: int where "BULK = 0"
definition WALL :: int where "WALL = 1"
definition MSX_NOSOURCE :: int where "MSX_NOSOURCE = - 1"
definition MSX_FLOWPACED :: int where "MSX_FLOWPACED = 3"

text \<open>\<^verbatim>\<open>NO_EXPR\<close> is the first enumerator of the expression types
  (\<^verbatim>\<open>expressionType < 0 || expressionType > 3\<close> bounds them in \<^verbatim>\<open>MSXaddExpression\<close>).\<close>

definition NO_EXPR :: int where "NO_EXPR = 0"

subsection \<open>Structs\<close>

text \<open>A source list (\<^verbatim>\<open>struct Ssource\<close> chained by \<^verbatim>\<open>next\<close>) is the list of its nodes,
  head first.\<close>

record Ssource =
  src_type :: int
  src_species :: int
  src_c0 :: double
  src_pat :: int

record Snode =
  n_rpt :: int
  n_id :: string
  n_tank :: int
  n_sources :: "Ssource list"
  n_c :: "double list"
  n_c0 :: "double list"

record Stank =
  t_a :: double
  t_v0 :: double
  t_mixModel :: int
  t_vMix :: double
  t_id :: string
  t_node :: int
  t_param :: "double list"
  t_c :: "double list"
  t_reacted :: "double list"

record Slink =
  l_n1 :: int
  l_n2 :: int
  l_diam :: double
  l_len :: double
  l_roughness :: double
  l_rpt :: int
  l_param :: "double list"
  l_id :: string
  l_c0 :: "double list"
  l_reacted :: "double list"

text \<open>A \<^verbatim>\<open>MathExpr *\<close> is an address: \<open>0\<close> is \<^verbatim>\<open>NULL\<close>, and address \<open>p > 0\<close> is cell
  \<open>p - 1\<close> of the project's expression store (see \<open>MathExprs\<close> below). Two pointers
  alias when the addresses are equal.\<close>

type_synonym exprptr = nat

record Sspecies =
  sp_id :: string
  sp_type :: int
  sp_units :: string
  sp_aTol :: double
  sp_rTol :: double
  sp_pipeExpr :: exprptr
  sp_tankExpr :: exprptr
  sp_pipeExprType :: int
  sp_tankExprType :: int
  sp_precision :: int
  sp_rpt :: int

record Sterm =
  tm_id :: string
  tm_expr :: exprptr
  tm_equation :: string

record Sparam =
  p_id :: string
  p_value :: double

record Sconst =
  k_id :: string
  k_value :: double

text \<open>A time pattern. The chain of \<^verbatim>\<open>SnumList\<close> nodes that starts at \<^verbatim>\<open>first\<close> is the
  list of its values; the cursor \<^verbatim>\<open>current\<close> is \<open>Some k\<close> when it points to node \<open>k\<close>
  of the chain (counted from 0) and \<open>None\<close> when it is \<^verbatim>\<open>NULL\<close>.\<close>

record Spattern =
  pat_id :: string
  pat_length :: int
  pat_first :: "double list"
  pat_current :: "nat option"
  pat_interval :: int

text \<open>The project: the fields of \<^verbatim>\<open>MSXproject\<close> that the toolkit functions use, and
  with them the two pieces of state that the C code keeps outside the struct: the
  hash tables of object names (\<^verbatim>\<open>Htable\<close>, a keyed container from names to indices,
  one per object type) and the store of the expressions that \<^verbatim>\<open>mathexpr_create\<close>
  allocates (of a \<^verbatim>\<open>MathExpr\<close> the toolkit touches the field \<^verbatim>\<open>ivar\<close> only, so a cell
  holds that field).\<close>

record project =
  ProjectOpened :: bool
  QualityOpened :: bool
  Nobjects :: "objtype \<Rightarrow> int"
  Node :: "Snode list"
  Link :: "Slink list"
  Tank :: "Stank list"
  Species :: "Sspecies list"
  Term :: "Sterm list"
  Param :: "Sparam list"
  Const :: "Sconst list"
  Pattern :: "Spattern list"
  C0 :: "double list"
  K :: "double list"
  D :: "REAL4 list"
  H :: "REAL4 list"
  Q :: "REAL4 list"
  AreaUnits :: int
  RateUnits :: int
  Solver :: int
  Coupling :: int
  Compiler :: int
  Qstep :: int
  DefRtol :: double
  DefAtol :: double
  PageSize :: int
  RptFile_name :: string
  Htable :: "objtype \<Rightarrow> string \<Rightarrow> int option"
  MathExprs :: "int list"

subsection \<open>Arrays\<close>

text \<open>\<open>in_array xs i\<close>: slot \<open>i\<close> lies inside the allocated array.\<close>

definition in_array :: "'a list \<Rightarrow> int \<Rightarrow> bool" where
  "in_array xs i = (0 \<le> i \<and> i < int (length xs))"

definition aget :: "'a list \<Rightarrow> int \<Rightarrow> 'a option" where
  "aget xs i = (if in_array xs i then Some (xs ! nat i) else None)"

definition aset :: "'a list \<Rightarrow> int \<Rightarrow> 'a \<Rightarrow> 'a list option" where
  "aset xs i v = (if in_array xs i then Some (xs[nat i := v]) else None)"

text \<open>\<^verbatim>\<open>calloc(n, size)\<close>: \<open>n\<close> zeroed slots. \<^verbatim>\<open>realloc(p, n * size)\<close>: the first \<open>n\<close>
  slots of the old array, and new slots up to \<open>n\<close>.\<close>

definition calloc :: "int \<Rightarrow> 'a \<Rightarrow> 'a list" where
  "calloc n z = replicate (nat n) z"

definition realloc :: "'a list \<Rightarrow> int \<Rightarrow> 'a \<Rightarrow> 'a list" where
  "realloc xs n z = take (nat n) xs @ replicate (nat n - length xs) z"

definition Snode0 :: Snode where
  "Snode0 = \<lparr>n_rpt = 0, n_id = [], n_tank = 0, n_sources = [], n_c = [], n_c0 = []\<rparr>"

definition Stank0 :: Stank where
  "Stank0 = \<lparr>t_a = dbl_zero, t_v0 = dbl_zero, t_mixModel = 0, t_vMix = dbl_zero,
     t_id = [], t_node = 0, t_param = [], t_c = [], t_reacted = []\<rparr>"

definition Slink0 :: Slink where
  "Slink0 = \<lparr>l_n1 = 0, l_n2 = 0, l_diam = dbl_zero, l_len = dbl_zero,
     l_roughness = dbl_zero, l_rpt = 0, l_param = [], l_id = [], l_c0 = [],
     l_reacted = []\<rparr>"

definition Sspecies0 :: Sspecies where
  "Sspecies0 = \<lparr>sp_id = [], sp_type = 0, sp_units = [], sp_aTol = dbl_zero,
     sp_rTol = dbl_zero, sp_pipeExpr = 0, sp_tankExpr = 0, sp_pipeExprType = 0,
     sp_tankExprType = 0, sp_precision = 0, sp_rpt = 0\<rparr>"

definition Sterm0 :: Sterm where
  "Sterm0 = \<lparr>tm_id = [], tm_expr = 0, tm_equation = []\<rparr>"

definition Sparam0 :: Sparam where
  "Sparam0 = \<lparr>p_id = [], p_value = dbl_zero\<rparr>"

definition Sconst0 :: Sconst where
  "Sconst0 = \<lparr>k_id = [], k_value = dbl_zero\<rparr>"

definition Spattern0 :: Spattern where
  "Spattern0 = \<lparr>pat_id = [], pat_length = 0, pat_first = [], pat_current = None,
     pat_interval = 0\<rparr>"

section \<open>Time patterns\<close>

text \<open>\<^verbatim>\<open>MSXgetpatternlen\<close>: the output \<^verbatim>\<open>*len\<close> is the second component.\<close>

definition MSXgetpatternlen :: "project \<Rightarrow> int \<Rightarrow> (retcode \<times> int) option" where
  "MSXgetpatternlen MSX pat =
     (if \<not> ProjectOpened MSX then Some (ERR_MSX_NOT_OPENED, 0)
      else if pat < 1 \<or> pat > Nobjects MSX PATTERN then Some (ERR_INVALID_OBJECT_INDEX, 0)
      else case aget (Pattern MSX) pat of
             None \<Rightarrow> None
           | Some P \<Rightarrow> Some (OK, pat_length P))"

text \<open>The \<^verbatim>\<open>while ( current )\<close> loop of \<^verbatim>\<open>MSXgetpatternvalue\<close>, run on the chain that
  starts at the cursor: \<open>vs\<close> are the values from the cursor on, \<open>k\<close> is the cursor and
  \<open>n\<close> the period counter. It yields the value found, if any, and the cursor it leaves.\<close>

fun getpattern_scan :: "double list \<Rightarrow> int \<Rightarrow> int \<Rightarrow> nat \<Rightarrow> double option \<times> nat option" where
  "getpattern_scan [] n period k = (None, None)"
| "getpattern_scan (v # vs) n period k =
     (if n = period then (Some v, Some k) else getpattern_scan vs (n + 1) period (Suc k))"

text \<open>\<^verbatim>\<open>MSXgetpatternvalue\<close>: the result is the return code, the output \<^verbatim>\<open>*value\<close> and the
  project, whose cursor the search moves.\<close>

definition MSXgetpatternvalue :: "project \<Rightarrow> int \<Rightarrow> int \<Rightarrow> (retcode \<times> double \<times> project) option" where
  "MSXgetpatternvalue MSX pat period =
     (if \<not> ProjectOpened MSX then Some (ERR_MSX_NOT_OPENED, dbl_zero, MSX)
      else if pat < 1 \<or> pat > Nobjects MSX PATTERN
        then Some (ERR_INVALID_OBJECT_INDEX, dbl_zero, MSX)
      else case aget (Pattern MSX) pat of
             None \<Rightarrow> None
           | Some P \<Rightarrow>
               if period \<le> pat_length P then
                 (case getpattern_scan (pat_first P) 1 period 0 of
                    (found, cur) \<Rightarrow>
                      Some (OK, (case found of None \<Rightarrow> dbl_zero | Some v \<Rightarrow> v),
                            MSX\<lparr>Pattern := (Pattern MSX)[nat pat := P\<lparr>pat_current := cur\<rparr>]\<rparr>))
               else Some (OK, dbl_zero, MSX))"

text \<open>The search loop of \<^verbatim>\<open>MSXsetpatternvalue\<close>: the chain with the value of period
  \<open>period\<close> replaced, whether the period was found, and the cursor it leaves.\<close>

fun setpattern_scan :: "double list \<Rightarrow> int \<Rightarrow> int \<Rightarrow> nat \<Rightarrow> double \<Rightarrow> double list \<times> nat option" where
  "setpattern_scan [] n period k x = ([], None)"
| "setpattern_scan (v # vs) n period k x =
     (if n = period then (x # vs, Some k)
      else (case setpattern_scan vs (n + 1) period (Suc k) x of
              (vs', cur) \<Rightarrow> (v # vs', cur)))"

definition MSXsetpatternvalue :: "project \<Rightarrow> int \<Rightarrow> int \<Rightarrow> double \<Rightarrow> (retcode \<times> project) option" where
  "MSXsetpatternvalue MSX pat period x =
     (if \<not> ProjectOpened MSX then Some (ERR_MSX_NOT_OPENED, MSX)
      else if pat < 1 \<or> pat > Nobjects MSX PATTERN then Some (ERR_INVALID_OBJECT_INDEX, MSX)
      else case aget (Pattern MSX) pat of
             None \<Rightarrow> None
           | Some P \<Rightarrow>
               if period \<le> 0 \<or> period > pat_length P then Some (ERR_INVALID_OBJECT_PARAMS, MSX)
               else (case setpattern_scan (pat_first P) 1 period 0 x of
                       (vs', cur) \<Rightarrow>
                         Some (OK, MSX\<lparr>Pattern := (Pattern MSX)
                                 [nat pat := P\<lparr>pat_first := vs', pat_current := cur\<rparr>]\<rparr>)))"

text \<open>One turn of the \<^verbatim>\<open>for\<close> loop of \<^verbatim>\<open>MSXsetpattern\<close>: a new list item with value \<open>x\<close>
  becomes the first node when the chain is empty, and otherwise the successor of the
  node under the cursor (\<^verbatim>\<open>current->next = listItem\<close>), and the cursor moves to it.
  The cursor is never \<^verbatim>\<open>NULL\<close> there: the first turn has set it.\<close>

definition setpattern_item :: "Spattern \<Rightarrow> double \<Rightarrow> Spattern" where
  "setpattern_item P x =
     (if pat_first P = [] then
        P\<lparr>pat_current := Some 0, pat_first := [x], pat_length := pat_length P + 1\<rparr>
      else
        (let c = (case pat_current P of None \<Rightarrow> 0 | Some k \<Rightarrow> k) in
         P\<lparr>pat_first := take (Suc c) (pat_first P) @ [x],
           pat_current := Some (Suc c),
           pat_length := pat_length P + 1\<rparr>))"

text \<open>\<^verbatim>\<open>MSXsetpattern\<close>: \<open>mult\<close> is the caller's array; the loop reads \<^verbatim>\<open>mult[0]\<close> to
  \<^verbatim>\<open>mult[len-1]\<close>, a fault when the array is shorter.\<close>

definition MSXsetpattern :: "project \<Rightarrow> int \<Rightarrow> double list \<Rightarrow> int \<Rightarrow> (retcode \<times> project) option" where
  "MSXsetpattern MSX pat mult len0 =
     (if \<not> ProjectOpened MSX then Some (ERR_MSX_NOT_OPENED, MSX)
      else if pat < 1 \<or> pat > Nobjects MSX PATTERN then Some (ERR_INVALID_OBJECT_INDEX, MSX)
      else
        (let len = (if len0 < 0 then 0 else len0) in
         case aget (Pattern MSX) pat of
           None \<Rightarrow> None
         | Some P \<Rightarrow>
             if nat len > length mult then None
             else
               (let P1 = P\<lparr>pat_first := [], pat_length := 0\<rparr>;
                    P2 = foldl setpattern_item P1 (take (nat len) mult);
                    P3 = P2\<lparr>pat_interval := 0,
                            pat_current := (if pat_first P2 = [] then None else Some 0)\<rparr>
                in Some (OK, MSX\<lparr>Pattern := (Pattern MSX)[nat pat := P3]\<rparr>))))"


section \<open>Object names\<close>

text \<open>
  Modelled from the spec: the hash table of object names (\<^verbatim>\<open>HTfind\<close>, \<^verbatim>\<open>HTinsert\<close>),
  which is not among the sources; the spec calls it a standard keyed container. A
  table is a map from names to indices: \<^verbatim>\<open>HTfind\<close> yields the index stored under the
  name, or \<open>-1\<close>; \<^verbatim>\<open>HTinsert\<close> stores the index under the name and yields \<open>1\<close>.

  The parameter \<^verbatim>\<open>id\<close> of the source is written \<open>oid\<close> throughout (\<open>id\<close> is the
  identity function of HOL).

  \<^verbatim>\<open>findObject\<close> and \<^verbatim>\<open>addObject\<close>, which coretoolkit.c calls, are written after
  \<^verbatim>\<open>MSXproj_findObject\<close> and \<^verbatim>\<open>MSXproj_addObject\<close> of msxproj.c: \<^verbatim>\<open>addObject\<close> does nothing
  and returns \<open>0\<close> when the name is already in the table of that type, and otherwise
  inserts it and returns the result of the insertion.
\<close>

definition findObject :: "project \<Rightarrow> objtype \<Rightarrow> string \<Rightarrow> int" where
  "findObject MSX type oid = (case Htable MSX type oid of None \<Rightarrow> - 1 | Some n \<Rightarrow> n)"

definition addObject :: "project \<Rightarrow> objtype \<Rightarrow> string \<Rightarrow> int \<Rightarrow> int \<times> project" where
  "addObject MSX type oid n =
     (if findObject MSX type oid > 0 then (0, MSX)
      else (1, MSX\<lparr>Htable := (Htable MSX)(type := (Htable MSX type)(oid \<mapsto> n))\<rparr>))"

section \<open>Helpers that are not among the sources\<close>

text \<open>
  The functions and tables that coretoolkit.c uses and that are defined in files
  outside the sources are parameters of the model:
  \<^item> \<open>checkID\<close>: the check of a new name, \<open>OK\<close> when the name is accepted;
  \<^item> \<open>MSXutils_findmatch s words\<close>: the position of \<open>s\<close> in a keyword table, negative
    when there is none; \<open>MSXutils_match\<close>: whether a string matches a keyword;
  \<^item> \<open>MSXutils_getDouble s y\<close> and \<open>MSXutils_getInt s y\<close>: whether \<open>s\<close> parses, and what
    the call leaves in the variable it is given a pointer to (\<open>y\<close> is its old content);
  \<^item> \<open>atoi\<close> of the C library;
  \<^item> the keyword tables;
  \<^item> \<open>mathexpr_create MSX equation\<close>: \<open>None\<close> when no expression is created
    (\<^verbatim>\<open>NULL\<close>), else the \<^verbatim>\<open>ivar\<close> field of the new expression;
  \<^item> \<open>MSXqual_step\<close>, \<open>MSXqual_getNodeQual\<close>, \<open>MSXqual_getLinkQual\<close> of the quality
    engine (\<open>MSXqual_step MSX t tleft\<close> is given the contents of \<^verbatim>\<open>*t\<close> and \<^verbatim>\<open>*tleft\<close> and
    yields the return code, their new contents and the new project); \<open>None\<close> is a
    memory fault.
\<close>

record externs =
  checkID :: "project \<Rightarrow> string \<Rightarrow> retcode"
  MSXutils_findmatch :: "string \<Rightarrow> string list \<Rightarrow> int"
  MSXutils_match :: "string \<Rightarrow> string \<Rightarrow> bool"
  MSXutils_getDouble :: "string \<Rightarrow> double \<Rightarrow> bool \<times> double"
  MSXutils_getInt :: "string \<Rightarrow> int \<Rightarrow> bool \<times> int"
  atoi :: "string \<Rightarrow> int"
  AreaUnitsWords :: "string list"
  TimeUnitsWords :: "string list"
  SolverTypeWords :: "string list"
  CouplingWords :: "string list"
  CompilerWords :: "string list"
  ReportWords :: "string list"
  mathexpr_create :: "project \<Rightarrow> string \<Rightarrow> int option"
  MSXqual_step :: "project \<Rightarrow> int \<Rightarrow> int \<Rightarrow> (retcode \<times> int \<times> int \<times> project) option"
  MSXqual_getNodeQual :: "project \<Rightarrow> int \<Rightarrow> int \<Rightarrow> double option"
  MSXqual_getLinkQual :: "project \<Rightarrow> int \<Rightarrow> int \<Rightarrow> double option"

text \<open>The guard of the configuration calls:
  \<^verbatim>\<open>if ((!MSX->ProjectOpened) || (!MSX->QualityOpened)) return ERR_MSX_NOT_OPENED;\<close>\<close>

definition not_opened :: "project \<Rightarrow> bool" where
  "not_opened MSX = (\<not> ProjectOpened MSX \<or> \<not> QualityOpened MSX)"

section \<open>Network construction\<close>

text \<open>The array of a type grown for one more object: \<^verbatim>\<open>calloc\<close> for the first
  object, \<^verbatim>\<open>realloc\<close> after that. \<open>n\<close> is the new count.\<close>

definition grow :: "'a list \<Rightarrow> int \<Rightarrow> 'a \<Rightarrow> 'a list" where
  "grow xs n z = (if n = 1 then calloc (n + 1) z else realloc xs (n + 1) z)"

definition MSXaddNode :: "externs \<Rightarrow> project \<Rightarrow> string \<Rightarrow> retcode \<times> project" where
  "MSXaddNode ext MSX oid =
     (if not_opened MSX then (ERR_MSX_NOT_OPENED, MSX)
      else if findObject MSX NODE oid \<ge> 1 then (ERR_INVALID_OBJECT_PARAMS, MSX)
      else if checkID ext MSX oid \<noteq> OK then (checkID ext MSX oid, MSX)
      else
        (case addObject MSX NODE oid (Nobjects MSX NODE + 1) of
           (r, MSX1) \<Rightarrow>
             (let err = (if r < 0 then E101 else OK);
                  nNodes = Nobjects MSX1 NODE + 1;
                  nodes = grow (Node MSX1) nNodes Snode0;
                  i = nat nNodes
              in (err, MSX1\<lparr>Node := nodes[i := (nodes ! i)
                                \<lparr>n_rpt := 0, n_id := oid, n_tank := 0, n_sources := []\<rparr>],
                            Nobjects := (Nobjects MSX1)(NODE := Nobjects MSX1 NODE + 1)\<rparr>))))"

text \<open>\<^verbatim>\<open>MSXaddTank\<close> and \<^verbatim>\<open>MSXaddReservoir\<close> have the same body but for the value
  assigned to \<^verbatim>\<open>Tank[i].a\<close>, here the parameter \<open>a\<close>.\<close>

definition add_tank :: "double \<Rightarrow> externs \<Rightarrow> project \<Rightarrow> string \<Rightarrow> double \<Rightarrow> int \<Rightarrow> double
    \<Rightarrow> retcode \<times> project" where
  "add_tank a ext MSX oid initialVolume mixModel volumeMix =
     (if not_opened MSX then (ERR_MSX_NOT_OPENED, MSX)
      else if findObject MSX TANK oid \<ge> 1 then (ERR_INVALID_OBJECT_PARAMS, MSX)
      else if checkID ext MSX oid \<noteq> OK then (checkID ext MSX oid, MSX)
      else
        (case addObject MSX TANK oid (Nobjects MSX TANK + 1) of
           (r1, MSX1) \<Rightarrow>
        (case addObject MSX1 NODE oid (Nobjects MSX1 NODE + 1) of
           (r2, MSX2) \<Rightarrow>
             (let err = (if r2 < 0 then E101 else if r1 < 0 then E101 else OK);
                  nTanks = Nobjects MSX2 TANK + 1;
                  tanks = grow (Tank MSX2) nTanks Stank0;
                  nNodes = Nobjects MSX2 NODE + 1;
                  nodes = grow (Node MSX2) nNodes Snode0;
                  i = nat nTanks;
                  j = nat nNodes
              in (err, MSX2\<lparr>Tank := tanks[i := (tanks ! i)
                                \<lparr>t_a := a, t_v0 := initialVolume, t_mixModel := mixModel,
                                 t_vMix := volumeMix, t_id := oid, t_node := nNodes\<rparr>],
                            Node := nodes[j := (nodes ! j)
                                \<lparr>n_tank := nTanks, n_rpt := 0, n_id := oid, n_sources := []\<rparr>],
                            Nobjects := (Nobjects MSX2)
                                (NODE := Nobjects MSX2 NODE + 1,
                                 TANK := Nobjects MSX2 TANK + 1)\<rparr>)))))"

definition MSXaddTank :: "externs \<Rightarrow> project \<Rightarrow> string \<Rightarrow> double \<Rightarrow> int \<Rightarrow> double
    \<Rightarrow> retcode \<times> project" where
  "MSXaddTank = add_tank dbl_one"

definition MSXaddReservoir :: "externs \<Rightarrow> project \<Rightarrow> string \<Rightarrow> double \<Rightarrow> int \<Rightarrow> double
    \<Rightarrow> retcode \<times> project" where
  "MSXaddReservoir = add_tank dbl_zero"

text \<open>\<^verbatim>\<open>MSXaddLink\<close>: the name is entered in the table of links before the end nodes
  are looked up, as in the source.\<close>

definition MSXaddLink :: "externs \<Rightarrow> project \<Rightarrow> string \<Rightarrow> string \<Rightarrow> string \<Rightarrow> double
    \<Rightarrow> double \<Rightarrow> double \<Rightarrow> retcode \<times> project" where
  "MSXaddLink ext MSX oid startNode endNode length0 diameter roughness =
     (if not_opened MSX then (ERR_MSX_NOT_OPENED, MSX)
      else if findObject MSX LINK oid \<ge> 1 then (ERR_INVALID_OBJECT_PARAMS, MSX)
      else if checkID ext MSX oid \<noteq> OK then (checkID ext MSX oid, MSX)
      else
        (case addObject MSX LINK oid (Nobjects MSX LINK + 1) of
           (r, MSX1) \<Rightarrow>
             (let err = (if r < 0 then E101 else OK);
                  x = findObject MSX1 NODE startNode
              in if x \<le> 0 then (ERR_NAME, MSX1)
                 else
                   (let y = findObject MSX1 NODE endNode
                    in if y \<le> 0 then (ERR_NAME, MSX1)
                       else
                         (let nLinks = Nobjects MSX1 LINK + 1;
                              links = grow (Link MSX1) nLinks Slink0;
                              i = nat nLinks
                          in (err, MSX1\<lparr>Link := links[i := (links ! i)
                                \<lparr>l_n1 := x, l_n2 := y, l_diam := diameter, l_len := length0,
                                 l_roughness := roughness, l_rpt := 0, l_param := [],
                                 l_id := oid\<rparr>],
                              Nobjects := (Nobjects MSX1)
                                (LINK := Nobjects MSX1 LINK + 1)\<rparr>))))))"

section \<open>Options\<close>

text \<open>\<^verbatim>\<open>MSXaddOption\<close>. The case \<^verbatim>\<open>COMPILER_OPTION\<close> of the source has no \<^verbatim>\<open>break\<close>: after
  \<^verbatim>\<open>MSX->Compiler = k\<close> control falls into \<^verbatim>\<open>default: return ERR_INVALID_OBJECT_TYPE\<close>.\<close>

definition MSXaddOption :: "externs \<Rightarrow> project \<Rightarrow> optiontype \<Rightarrow> string \<Rightarrow> retcode \<times> project" where
  "MSXaddOption ext MSX optionType v =
     (if not_opened MSX then (ERR_MSX_NOT_OPENED, MSX)
      else case optionType of
        AREA_UNITS_OPTION \<Rightarrow>
          (let k = MSXutils_findmatch ext v (AreaUnitsWords ext)
           in if k < 0 then (ERR_KEYWORD, MSX) else (OK, MSX\<lparr>AreaUnits := k\<rparr>))
      | RATE_UNITS_OPTION \<Rightarrow>
          (let k = MSXutils_findmatch ext v (TimeUnitsWords ext)
           in if k < 0 then (ERR_KEYWORD, MSX) else (OK, MSX\<lparr>RateUnits := k\<rparr>))
      | SOLVER_OPTION \<Rightarrow>
          (let k = MSXutils_findmatch ext v (SolverTypeWords ext)
           in if k < 0 then (ERR_KEYWORD, MSX) else (OK, MSX\<lparr>Solver := k\<rparr>))
      | COUPLING_OPTION \<Rightarrow>
          (let k = MSXutils_findmatch ext v (CouplingWords ext)
           in if k < 0 then (ERR_KEYWORD, MSX) else (OK, MSX\<lparr>Coupling := k\<rparr>))
      | TIMESTEP_OPTION \<Rightarrow>
          (let k = atoi ext v
           in if k \<le> 0 then (ERR_NUMBER, MSX) else (OK, MSX\<lparr>Qstep := k\<rparr>))
      | RTOL_OPTION \<Rightarrow>
          (case MSXutils_getDouble ext v (DefRtol MSX) of
             (ok, y) \<Rightarrow> (if \<not> ok then ERR_NUMBER else OK, MSX\<lparr>DefRtol := y\<rparr>))
      | ATOL_OPTION \<Rightarrow>
          (case MSXutils_getDouble ext v (DefAtol MSX) of
             (ok, y) \<Rightarrow> (if \<not> ok then ERR_NUMBER else OK, MSX\<lparr>DefAtol := y\<rparr>))
      | COMPILER_OPTION \<Rightarrow>
          (let k = MSXutils_findmatch ext v (CompilerWords ext)
           in if k < 0 then (ERR_KEYWORD, MSX)
              else (ERR_INVALID_OBJECT_TYPE, MSX\<lparr>Compiler := k\<rparr>))
      | OTHER_OPTION _ \<Rightarrow> (ERR_INVALID_OBJECT_TYPE, MSX))"

section \<open>Species, coefficients, terms and expressions\<close>

text \<open>A loop \<^verbatim>\<open>for (i=1; i<=n; i++)\<close> that updates slot \<open>i\<close> of an array with \<open>f\<close>: a
  fault when slot \<open>n\<close> is outside the array or when \<open>f\<close> faults.\<close>

definition update_slots :: "('a \<Rightarrow> 'a option) \<Rightarrow> 'a list \<Rightarrow> int \<Rightarrow> 'a list option" where
  "update_slots f xs n =
     (if n < 1 then Some xs
      else if in_array xs n then
        (case those (map f (take (nat n) (drop 1 xs))) of
           None \<Rightarrow> None
         | Some ys \<Rightarrow> Some (take 1 xs @ ys @ drop (nat n + 1) xs))
      else None)"

text \<open>A loop whose body may fault, over the values \<open>xs\<close> of its counter.\<close>

fun fold_opt :: "('b \<Rightarrow> 'a \<Rightarrow> 'a option) \<Rightarrow> 'b list \<Rightarrow> 'a \<Rightarrow> 'a option" where
  "fold_opt f [] a = Some a"
| "fold_opt f (x # xs) a = (case f x a of None \<Rightarrow> None | Some a' \<Rightarrow> fold_opt f xs a')"

text \<open>The per-object arrays of doubles after one more species or parameter: for the
  first one \<^verbatim>\<open>calloc(n+1)\<close>; after that \<^verbatim>\<open>realloc\<close> to \<open>n+1\<close> slots followed by
  \<^verbatim>\<open>for (j=1; j<=n; j++) p[j] = 0\<close>.\<close>

definition rezero :: "double list \<Rightarrow> int \<Rightarrow> double list" where
  "rezero xs n = take 1 (realloc xs (n + 1) dbl_zero) @ replicate (nat n) dbl_zero"

definition fresh_doubles :: "int \<Rightarrow> double list \<Rightarrow> double list" where
  "fresh_doubles n xs = (if n = 1 then calloc (n + 1) dbl_zero else rezero xs n)"

text \<open>The \<^verbatim>\<open>switch (units)\<close> of \<^verbatim>\<open>MSXaddSpecies\<close>: the string copied into the species,
  \<open>None\<close> in the \<^verbatim>\<open>default\<close> case.\<close>

fun units_name :: "unitstype \<Rightarrow> string option" where
  "units_name MG = Some ''MG''"
| "units_name UG = Some ''UG''"
| "units_name MOLE = Some ''MOLE''"
| "units_name MMOLE = Some ''MMOLE''"
| "units_name (OTHER_UNITS _) = None"

definition MSXaddSpecies :: "externs \<Rightarrow> project \<Rightarrow> string \<Rightarrow> int \<Rightarrow> unitstype \<Rightarrow> double
    \<Rightarrow> double \<Rightarrow> (retcode \<times> project) option" where
  "MSXaddSpecies ext MSX oid type units aTol rTol =
     (if \<not> (type = BULK \<or> type = WALL) then Some (ERR_KEYWORD, MSX)
      else if not_opened MSX then Some (ERR_MSX_NOT_OPENED, MSX)
      else if findObject MSX SPECIES oid \<ge> 1 then Some (ERR_INVALID_OBJECT_PARAMS, MSX)
      else if checkID ext MSX oid \<noteq> OK then Some (checkID ext MSX oid, MSX)
      else
        (case addObject MSX SPECIES oid (Nobjects MSX SPECIES + 1) of
           (r, MSX1) \<Rightarrow>
             (let err = (if r < 0 then E101 else OK);
                  nSpecies = Nobjects MSX1 SPECIES + 1;
                  species = grow (Species MSX1) nSpecies Sspecies0;
                  i = nat nSpecies;
                  species1 = species[i := (species ! i)\<lparr>sp_id := oid, sp_type := type\<rparr>];
                  MSX2 = MSX1\<lparr>Species := species1,
                              C0 := fresh_doubles nSpecies (C0 MSX1)\<rparr>
              in case units_name units of
                   None \<Rightarrow> Some (ERR_KEYWORD, MSX2)
                 | Some u \<Rightarrow>
                     (let MSX3 = MSX2\<lparr>Species := species1[i := (species1 ! i)
                                   \<lparr>sp_units := u, sp_aTol := aTol, sp_rTol := rTol,
                                    sp_pipeExpr := 0, sp_tankExpr := 0,
                                    sp_pipeExprType := NO_EXPR, sp_tankExprType := NO_EXPR,
                                    sp_precision := 2, sp_rpt := 0\<rparr>],
                                 Nobjects := (Nobjects MSX2)(SPECIES := nSpecies)\<rparr>;
                          n = Nobjects MSX3 SPECIES
                      in do {
                        nodes \<leftarrow> update_slots
                          (\<lambda>N. Some (N\<lparr>n_c := fresh_doubles n (n_c N),
                                       n_c0 := fresh_doubles n (n_c0 N)\<rparr>))
                          (Node MSX3) (Nobjects MSX3 NODE);
                        tanks \<leftarrow> update_slots
                          (\<lambda>T. Some (T\<lparr>t_c := fresh_doubles n (t_c T),
                                       t_reacted := fresh_doubles n (t_reacted T)\<rparr>))
                          (Tank MSX3) (Nobjects MSX3 TANK);
                        links \<leftarrow> update_slots
                          (\<lambda>L. Some (L\<lparr>l_c0 := fresh_doubles n (l_c0 L),
                                       l_reacted := fresh_doubles n (l_reacted L)\<rparr>))
                          (Link MSX3) (Nobjects MSX3 LINK);
                        Some (err, MSX3\<lparr>Node := nodes, Tank := tanks, Link := links\<rparr>)
                      }))))"

text \<open>\<^verbatim>\<open>MSXaddCoefficeint\<close>. For a parameter the source looks the name up in the table
  of patterns (\<^verbatim>\<open>findObject(PATTERN, id)\<close>).\<close>

definition MSXaddCoefficeint :: "externs \<Rightarrow> project \<Rightarrow> objtype \<Rightarrow> string \<Rightarrow> double
    \<Rightarrow> (retcode \<times> project) option" where
  "MSXaddCoefficeint ext MSX type oid v =
     (if not_opened MSX then Some (ERR_MSX_NOT_OPENED, MSX)
      else if type = PARAMETER then
        (if findObject MSX PATTERN oid \<ge> 1 then Some (ERR_INVALID_OBJECT_PARAMS, MSX)
         else if checkID ext MSX oid \<noteq> OK then Some (checkID ext MSX oid, MSX)
         else
           (case addObject MSX PARAMETER oid (Nobjects MSX PARAMETER + 1) of
              (r, MSX1) \<Rightarrow>
                (let err = (if r < 0 then E101 else OK);
                     nParams = Nobjects MSX1 PARAMETER + 1;
                     params = grow (Param MSX1) nParams Sparam0;
                     i = nat nParams;
                     MSX2 = MSX1\<lparr>Param := params[i := (params ! i)
                                   \<lparr>p_id := oid, p_value := v\<rparr>],
                                 Nobjects := (Nobjects MSX1)(PARAMETER := nParams)\<rparr>;
                     n = Nobjects MSX2 PARAMETER
                 in do {
                   tanks \<leftarrow> update_slots
                     (\<lambda>T. Some (T\<lparr>t_param := fresh_doubles n (t_param T)\<rparr>))
                     (Tank MSX2) (Nobjects MSX2 TANK);
                   links \<leftarrow> update_slots
                     (\<lambda>L. Some (L\<lparr>l_param := fresh_doubles n (l_param L)\<rparr>))
                     (Link MSX2) (Nobjects MSX2 LINK);
                   Some (err, MSX2\<lparr>Tank := tanks, Link := links\<rparr>)
                 })))
      else if type = CONSTANT then
        (if findObject MSX CONSTANT oid \<ge> 1 then Some (ERR_INVALID_OBJECT_PARAMS, MSX)
         else if checkID ext MSX oid \<noteq> OK then Some (checkID ext MSX oid, MSX)
         else
           (case addObject MSX CONSTANT oid (Nobjects MSX CONSTANT + 1) of
              (r, MSX1) \<Rightarrow>
                (let err = (if r < 0 then E101 else OK);
                     nConsts = Nobjects MSX1 CONSTANT + 1;
                     consts = grow (Const MSX1) nConsts Sconst0;
                     i = nat nConsts
                 in Some (err, MSX1\<lparr>Const := consts[i := (consts ! i)
                                   \<lparr>k_id := oid, k_value := v\<rparr>],
                                 Nobjects := (Nobjects MSX1)(CONSTANT := nConsts)\<rparr>))))
      else Some (ERR_KEYWORD, MSX))"

text \<open>The expression store: \<open>new_expr\<close> allocates a cell for an expression with the
  given \<^verbatim>\<open>ivar\<close> and yields its address; \<open>expr_ivar\<close> reads \<^verbatim>\<open>expr->ivar\<close>, a fault on
  \<^verbatim>\<open>NULL\<close> and on an address that was never allocated.\<close>

definition new_expr :: "project \<Rightarrow> int \<Rightarrow> exprptr \<times> project" where
  "new_expr MSX iv = (Suc (length (MathExprs MSX)), MSX\<lparr>MathExprs := MathExprs MSX @ [iv]\<rparr>)"

definition expr_ivar :: "project \<Rightarrow> exprptr \<Rightarrow> int option" where
  "expr_ivar MSX p =
     (if p = 0 \<or> p > length (MathExprs MSX) then None else Some (MathExprs MSX ! (p - 1)))"

text \<open>One turn of the last loop of \<^verbatim>\<open>MSXaddTerm\<close>, for term \<open>m\<close>.\<close>

definition addTerm_bump :: "int \<Rightarrow> project \<Rightarrow> project option" where
  "addTerm_bump m MSX = do {
     T \<leftarrow> aget (Term MSX) m;
     iv \<leftarrow> expr_ivar MSX (tm_expr T);
     Some (if iv \<noteq> - 1 \<and> iv > Nobjects MSX SPECIES + 1
           then MSX\<lparr>MathExprs := (MathExprs MSX)[tm_expr T - 1 := iv + 1]\<rparr>
           else MSX)
   }"

text \<open>\<^verbatim>\<open>MSXaddTerm\<close>: the term is entered and counted before its equation is parsed,
  as in the source.\<close>

definition MSXaddTerm :: "externs \<Rightarrow> project \<Rightarrow> string \<Rightarrow> string \<Rightarrow> (retcode \<times> project) option" where
  "MSXaddTerm ext MSX oid equation =
     (if not_opened MSX then Some (ERR_MSX_NOT_OPENED, MSX)
      else if findObject MSX TERM_OBJ oid \<ge> 1 then Some (ERR_INVALID_OBJECT_PARAMS, MSX)
      else if checkID ext MSX oid \<noteq> OK then Some (checkID ext MSX oid, MSX)
      else
        (case addObject MSX TERM_OBJ oid (Nobjects MSX TERM_OBJ + 1) of
           (r, MSX1) \<Rightarrow>
             (let err = (if r < 0 then E101 else OK);
                  nTerms = Nobjects MSX1 TERM_OBJ + 1;
                  terms = grow (Term MSX1) nTerms Sterm0;
                  i = nat nTerms;
                  MSX2 = MSX1\<lparr>Term := terms[i := (terms ! i)\<lparr>tm_id := oid\<rparr>],
                              Nobjects := (Nobjects MSX1)(TERM_OBJ := nTerms)\<rparr>
              in case mathexpr_create ext MSX2 equation of
                   None \<Rightarrow> Some (ERR_MATH_EXPR, MSX2)
                 | Some iv \<Rightarrow>
                     (case new_expr MSX2 iv of
                        (expr, MSX3) \<Rightarrow>
                          (let MSX4 = MSX3\<lparr>Term := (Term MSX3)[i := (Term MSX3 ! i)
                                          \<lparr>tm_expr := expr, tm_equation := equation\<rparr>]\<rparr>
                           in do {
                             MSX5 \<leftarrow> fold_opt addTerm_bump [1..Nobjects MSX4 TERM_OBJ - 1] MSX4;
                             Some (err, MSX5)
                           })))))"

definition MSXaddExpression :: "externs \<Rightarrow> project \<Rightarrow> objtype \<Rightarrow> int \<Rightarrow> string \<Rightarrow> string
    \<Rightarrow> (retcode \<times> project) option" where
  "MSXaddExpression ext MSX classType expressionType species equation =
     (if not_opened MSX then Some (ERR_MSX_NOT_OPENED, MSX)
      else if expressionType < 0 \<or> expressionType > 3 then Some (ERR_KEYWORD, MSX)
      else
        (let i = findObject MSX SPECIES species
         in if i < 1 then Some (ERR_NAME, MSX)
            else if classType \<noteq> LINK \<and> classType \<noteq> TANK
              then Some (ERR_INVALID_OBJECT_PARAMS, MSX)
            else do {
              S \<leftarrow> aget (Species MSX) i;
              if classType = LINK \<and> sp_pipeExprType S \<noteq> NO_EXPR then Some (ERR_DUP_EXPR, MSX)
              else if classType = TANK \<and> sp_tankExprType S \<noteq> NO_EXPR
                then Some (ERR_DUP_EXPR, MSX)
              else
                (case mathexpr_create ext MSX equation of
                   None \<Rightarrow> Some (ERR_MATH_EXPR, MSX)
                 | Some iv \<Rightarrow>
                     (case new_expr MSX iv of
                        (expr, MSX1) \<Rightarrow>
                          Some (OK, MSX1\<lparr>Species := (Species MSX1)[nat i :=
                            (if classType = LINK
                             then S\<lparr>sp_pipeExpr := expr, sp_pipeExprType := expressionType\<rparr>
                             else S\<lparr>sp_tankExpr := expr, sp_tankExprType := expressionType\<rparr>)]\<rparr>)))
            }))"

section \<open>Sources, initial quality, parameters and reports\<close>

text \<open>The search of a source list for the species of \<open>new\<close> and the assignment of all
  four fields of the source found: \<open>replace_source\<close> is \<open>None\<close> when the list has no
  source of that species, in which case a new source is linked in at the head.\<close>

fun replace_source :: "Ssource \<Rightarrow> Ssource list \<Rightarrow> Ssource list option" where
  "replace_source new [] = None"
| "replace_source new (s # ss) =
     (if src_species s = src_species new then Some (new # ss)
      else map_option ((#) s) (replace_source new ss))"

definition put_source :: "Ssource \<Rightarrow> Ssource list \<Rightarrow> Ssource list" where
  "put_source new ss = (case replace_source new ss of None \<Rightarrow> new # ss | Some ss' \<Rightarrow> ss')"

text \<open>\<^verbatim>\<open>source->type = (char)sourceType\<close>: the source kinds \<open>-1..3\<close> fit a \<^verbatim>\<open>char\<close>.\<close>

definition MSXaddSource :: "externs \<Rightarrow> project \<Rightarrow> int \<Rightarrow> string \<Rightarrow> string \<Rightarrow> double \<Rightarrow> string
    \<Rightarrow> (retcode \<times> project) option" where
  "MSXaddSource ext MSX sourceType nodeId speciesId strength timePattern =
     (if not_opened MSX then Some (ERR_MSX_NOT_OPENED, MSX)
      else if sourceType < 0 \<or> sourceType > 3 then Some (ERR_KEYWORD, MSX)
      else
        (let j = findObject MSX NODE nodeId
         in if j \<le> 0 then Some (ERR_NAME, MSX)
            else
              (let m = findObject MSX SPECIES speciesId
               in if m \<le> 0 then Some (ERR_NAME, MSX)
                  else do {
                    S \<leftarrow> aget (Species MSX) m;
                    if sp_type S \<noteq> BULK then Some (OK, MSX)
                    else do {
                      N \<leftarrow> aget (Node MSX) j;
                      Some (OK, MSX\<lparr>Node := (Node MSX)[nat j := N\<lparr>n_sources :=
                        put_source \<lparr>src_type = sourceType, src_species = m,
                                    src_c0 = strength,
                                    src_pat = findObject MSX PATTERN timePattern\<rparr>
                                   (n_sources N)\<rparr>]\<rparr>)
                    }
                  })))"

text \<open>The assignments \<^verbatim>\<open>Node[j].c0[m] = value\<close> and \<^verbatim>\<open>Link[j].c0[m] = value\<close>.\<close>

definition node_set_c0 :: "int \<Rightarrow> double \<Rightarrow> Snode \<Rightarrow> Snode option" where
  "node_set_c0 m v N = map_option (\<lambda>c. N\<lparr>n_c0 := c\<rparr>) (aset (n_c0 N) m v)"

definition link_set_c0 :: "int \<Rightarrow> double \<Rightarrow> Slink \<Rightarrow> Slink option" where
  "link_set_c0 m v L = map_option (\<lambda>c. L\<lparr>l_c0 := c\<rparr>) (aset (l_c0 L) m v)"

text \<open>The update of one slot of an array: \<^verbatim>\<open>xs[i]\<close> becomes \<open>f xs[i]\<close>.\<close>

definition update_slot :: "('a \<Rightarrow> 'a option) \<Rightarrow> 'a list \<Rightarrow> int \<Rightarrow> 'a list option" where
  "update_slot f xs i = do { x \<leftarrow> aget xs i; y \<leftarrow> f x; Some (xs[nat i := y]) }"

definition MSXaddQuality :: "externs \<Rightarrow> project \<Rightarrow> string \<Rightarrow> string \<Rightarrow> double \<Rightarrow> string
    \<Rightarrow> (retcode \<times> project) option" where
  "MSXaddQuality ext MSX type speciesId v oid =
     (if not_opened MSX then Some (ERR_MSX_NOT_OPENED, MSX)
      else if \<not> MSXutils_match ext type ''GLOBAL'' \<and> \<not> MSXutils_match ext type ''NODE''
              \<and> \<not> MSXutils_match ext type ''LINK''
        then Some (ERR_KEYWORD, MSX)
      else
        (let m = findObject MSX SPECIES speciesId
         in if m \<le> 0 then Some (ERR_NAME, MSX)
            else if MSXutils_match ext type ''GLOBAL'' then do {
              c \<leftarrow> aset (C0 MSX) m v;
              S \<leftarrow> aget (Species MSX) m;
              nodes \<leftarrow> (if sp_type S = BULK
                         then update_slots (node_set_c0 m v) (Node MSX) (Nobjects MSX NODE)
                         else Some (Node MSX));
              links \<leftarrow> update_slots (link_set_c0 m v) (Link MSX) (Nobjects MSX LINK);
              Some (OK, MSX\<lparr>C0 := c, Node := nodes, Link := links\<rparr>)
            }
            else if MSXutils_match ext type ''NODE'' then
              (let j = findObject MSX NODE oid
               in if j \<le> 0 then Some (ERR_NAME, MSX)
                  else do {
                    S \<leftarrow> aget (Species MSX) m;
                    if sp_type S = BULK then do {
                      nodes \<leftarrow> update_slot (node_set_c0 m v) (Node MSX) j;
                      Some (OK, MSX\<lparr>Node := nodes\<rparr>)
                    }
                    else Some (OK, MSX)
                  })
            else
              (let j = findObject MSX LINK oid
               in if j \<le> 0 then Some (ERR_NAME, MSX)
                  else do {
                    links \<leftarrow> update_slot (link_set_c0 m v) (Link MSX) j;
                    Some (OK, MSX\<lparr>Link := links\<rparr>)
                  })))"

definition tank_set_param :: "int \<Rightarrow> double \<Rightarrow> Stank \<Rightarrow> Stank option" where
  "tank_set_param i v T = map_option (\<lambda>p. T\<lparr>t_param := p\<rparr>) (aset (t_param T) i v)"

definition link_set_param :: "int \<Rightarrow> double \<Rightarrow> Slink \<Rightarrow> Slink option" where
  "link_set_param i v L = map_option (\<lambda>p. L\<lparr>l_param := p\<rparr>) (aset (l_param L) i v)"

text \<open>\<^verbatim>\<open>MSXaddParameter\<close>: the index of the parameter is used as it comes from the
  table, \<open>-1\<close> included.\<close>

definition MSXaddParameter :: "externs \<Rightarrow> project \<Rightarrow> string \<Rightarrow> string \<Rightarrow> double \<Rightarrow> string
    \<Rightarrow> (retcode \<times> project) option" where
  "MSXaddParameter ext MSX type paramId v oid =
     (if not_opened MSX then Some (ERR_MSX_NOT_OPENED, MSX)
      else
        (let i = findObject MSX PARAMETER paramId
         in if MSXutils_match ext type ''PIPE'' then
              (let j = findObject MSX LINK oid
               in if j \<le> 0 then Some (ERR_NAME, MSX)
                  else do {
                    links \<leftarrow> update_slot (link_set_param i v) (Link MSX) j;
                    Some (OK, MSX\<lparr>Link := links\<rparr>)
                  })
            else if MSXutils_match ext type ''TANK'' then
              (let j = findObject MSX TANK oid
               in if j \<le> 0 then Some (ERR_NAME, MSX)
                  else do {
                    N \<leftarrow> aget (Node MSX) j;
                    if n_tank N > 0 then do {
                      tanks \<leftarrow> update_slot (tank_set_param i v) (Tank MSX) (n_tank N);
                      Some (OK, MSX\<lparr>Tank := tanks\<rparr>)
                    }
                    else Some (OK, MSX)
                  })
            else Some (ERR_KEYWORD, MSX)))"

text \<open>\<^verbatim>\<open>MSXsetReport\<close>: the \<^verbatim>\<open>switch\<close> has the cases 0 to 4 and no default.\<close>

definition MSXsetReport :: "externs \<Rightarrow> project \<Rightarrow> string \<Rightarrow> string \<Rightarrow> int
    \<Rightarrow> (retcode \<times> project) option" where
  "MSXsetReport ext MSX reportType oid precision =
     (if not_opened MSX then Some (ERR_MSX_NOT_OPENED, MSX)
      else
        (let k = MSXutils_findmatch ext reportType (ReportWords ext)
         in if k < 0 then Some (ERR_KEYWORD, MSX)
            else if k = 0 then
              (let j = findObject MSX NODE oid
               in if j \<le> 0 then Some (ERR_NAME, MSX)
                  else do {
                    nodes \<leftarrow> update_slot (\<lambda>N. Some (N\<lparr>n_rpt := 1\<rparr>)) (Node MSX) j;
                    Some (OK, MSX\<lparr>Node := nodes\<rparr>)
                  })
            else if k = 1 then
              (let j = findObject MSX LINK oid
               in if j \<le> 0 then Some (ERR_NAME, MSX)
                  else do {
                    links \<leftarrow> update_slot (\<lambda>L. Some (L\<lparr>l_rpt := 1\<rparr>)) (Link MSX) j;
                    Some (OK, MSX\<lparr>Link := links\<rparr>)
                  })
            else if k = 2 then
              (let j = findObject MSX SPECIES oid
               in if j \<le> 0 then Some (ERR_NAME, MSX)
                  else do {
                    species \<leftarrow> update_slot
                      (\<lambda>S. Some (S\<lparr>sp_rpt := 1, sp_precision := precision\<rparr>)) (Species MSX) j;
                    Some (OK, MSX\<lparr>Species := species\<rparr>)
                  })
            else if k = 3 then Some (OK, MSX\<lparr>RptFile_name := oid\<rparr>)
            else if k = 4 then
              (case MSXutils_getInt ext oid (PageSize MSX) of
                 (ok, y) \<Rightarrow> Some (if \<not> ok then ERR_NUMBER else OK, MSX\<lparr>PageSize := y\<rparr>))
            else Some (OK, MSX)))"

section \<open>Hydraulics\<close>

text \<open>One turn of a loop \<^verbatim>\<open>dst[i+1] = src[i]\<close>: a fault when \<open>src\<close> has no element \<open>i\<close>
  or \<open>dst\<close> no slot \<open>i+1\<close>.\<close>

definition copy_shifted :: "'a list \<Rightarrow> nat \<Rightarrow> 'a list \<Rightarrow> 'a list option" where
  "copy_shifted src i dst =
     (if i < length src \<and> Suc i < length dst then Some (dst[Suc i := src ! i]) else None)"

definition MSXsetHydraulics :: "project \<Rightarrow> REAL4 list \<Rightarrow> REAL4 list \<Rightarrow> REAL4 list
    \<Rightarrow> (retcode \<times> project) option" where
  "MSXsetHydraulics MSX demands heads flows =
     (if not_opened MSX then Some (ERR_MSX_NOT_OPENED, MSX)
      else
        (let nNodes = Nobjects MSX NODE; nLinks = Nobjects MSX LINK
         in do {
           dh \<leftarrow> fold_opt
             (\<lambda>i (d, h). do {
                d' \<leftarrow> copy_shifted demands i d;
                h' \<leftarrow> copy_shifted heads i h;
                Some (d', h') })
             [0..<nat nNodes] (D MSX, H MSX);
           q \<leftarrow> fold_opt (copy_shifted flows) [0..<nat nLinks] (Q MSX);
           Some (OK, MSX\<lparr>D := fst dh, H := snd dh, Q := q\<rparr>)
         }))"

section \<open>Getters\<close>

text \<open>The output of a getter (\<^verbatim>\<open>*len\<close>, \<^verbatim>\<open>*value\<close>, the buffer \<^verbatim>\<open>id\<close>) is the second
  component of its result. These functions do not change the project.\<close>

definition MSXgetIDlen :: "project \<Rightarrow> objtype \<Rightarrow> int \<Rightarrow> (retcode \<times> int) option" where
  "MSXgetIDlen MSX type index =
     (if \<not> ProjectOpened MSX then Some (ERR_MSX_NOT_OPENED, 0)
      else if type \<noteq> SPECIES \<and> type \<noteq> CONSTANT \<and> type \<noteq> PARAMETER \<and> type \<noteq> PATTERN
        then Some (ERR_INVALID_OBJECT_TYPE, 0)
      else if index < 1 \<or> index > Nobjects MSX type then Some (ERR_INVALID_OBJECT_INDEX, 0)
      else if type = SPECIES then
        map_option (\<lambda>S. (OK, int (length (sp_id S)))) (aget (Species MSX) index)
      else if type = CONSTANT then
        map_option (\<lambda>C. (OK, int (length (k_id C)))) (aget (Const MSX) index)
      else if type = PARAMETER then
        map_option (\<lambda>P. (OK, int (length (p_id P)))) (aget (Param MSX) index)
      else
        map_option (\<lambda>P. (OK, int (length (pat_id P)))) (aget (Pattern MSX) index))"

text \<open>\<^verbatim>\<open>MSXgetID\<close>: \<^verbatim>\<open>strncpy(id, name, len); id[len] = 0\<close> leaves the first \<open>len\<close>
  characters of the name in the buffer; a negative \<open>len\<close> is a fault.\<close>

definition MSXgetID :: "project \<Rightarrow> objtype \<Rightarrow> int \<Rightarrow> int \<Rightarrow> (retcode \<times> string) option" where
  "MSXgetID MSX type index len =
     (if \<not> ProjectOpened MSX then Some (ERR_MSX_NOT_OPENED, [])
      else if type \<noteq> SPECIES \<and> type \<noteq> CONSTANT \<and> type \<noteq> PARAMETER \<and> type \<noteq> PATTERN
        then Some (ERR_INVALID_OBJECT_TYPE, [])
      else if index < 1 \<or> index > Nobjects MSX type then Some (ERR_INVALID_OBJECT_INDEX, [])
      else if len < 0 then None
      else if type = SPECIES then
        map_option (\<lambda>S. (OK, take (nat len) (sp_id S))) (aget (Species MSX) index)
      else if type = CONSTANT then
        map_option (\<lambda>C. (OK, take (nat len) (k_id C))) (aget (Const MSX) index)
      else if type = PARAMETER then
        map_option (\<lambda>P. (OK, take (nat len) (p_id P))) (aget (Param MSX) index)
      else
        map_option (\<lambda>P. (OK, take (nat len) (pat_id P))) (aget (Pattern MSX) index))"

definition MSXgetconstant :: "project \<Rightarrow> int \<Rightarrow> (retcode \<times> double) option" where
  "MSXgetconstant MSX index =
     (if \<not> ProjectOpened MSX then Some (ERR_MSX_NOT_OPENED, dbl_zero)
      else if index < 1 \<or> index > Nobjects MSX CONSTANT
        then Some (ERR_INVALID_OBJECT_INDEX, dbl_zero)
      else map_option (\<lambda>C. (OK, k_value C)) (aget (Const MSX) index))"

definition MSXgetparameter :: "project \<Rightarrow> objtype \<Rightarrow> int \<Rightarrow> int \<Rightarrow> (retcode \<times> double) option" where
  "MSXgetparameter MSX type index param =
     (if \<not> ProjectOpened MSX then Some (ERR_MSX_NOT_OPENED, dbl_zero)
      else if param < 1 \<or> param > Nobjects MSX PARAMETER
        then Some (ERR_INVALID_OBJECT_INDEX, dbl_zero)
      else if type = NODE then
        (if index < 1 \<or> index > Nobjects MSX NODE then Some (ERR_INVALID_OBJECT_INDEX, dbl_zero)
         else do {
           N \<leftarrow> aget (Node MSX) index;
           if n_tank N > 0 then do {
             T \<leftarrow> aget (Tank MSX) (n_tank N);
             v \<leftarrow> aget (t_param T) param;
             Some (OK, v)
           }
           else Some (OK, dbl_zero)
         })
      else if type = LINK then
        (if index < 1 \<or> index > Nobjects MSX LINK then Some (ERR_INVALID_OBJECT_INDEX, dbl_zero)
         else do {
           L \<leftarrow> aget (Link MSX) index;
           v \<leftarrow> aget (l_param L) param;
           Some (OK, v)
         })
      else Some (ERR_INVALID_OBJECT_TYPE, dbl_zero))"

definition MSXgetinitqual :: "project \<Rightarrow> objtype \<Rightarrow> int \<Rightarrow> int \<Rightarrow> (retcode \<times> double) option" where
  "MSXgetinitqual MSX type index species =
     (if \<not> ProjectOpened MSX then Some (ERR_MSX_NOT_OPENED, dbl_zero)
      else if species < 1 \<or> species > Nobjects MSX SPECIES
        then Some (ERR_INVALID_OBJECT_INDEX, dbl_zero)
      else if type = NODE then
        (if index < 1 \<or> index > Nobjects MSX NODE then Some (ERR_INVALID_OBJECT_INDEX, dbl_zero)
         else do {
           N \<leftarrow> aget (Node MSX) index;
           v \<leftarrow> aget (n_c0 N) species;
           Some (OK, v)
         })
      else if type = LINK then
        (if index < 1 \<or> index > Nobjects MSX LINK then Some (ERR_INVALID_OBJECT_INDEX, dbl_zero)
         else do {
           L \<leftarrow> aget (Link MSX) index;
           v \<leftarrow> aget (l_c0 L) species;
           Some (OK, v)
         })
      else Some (ERR_INVALID_OBJECT_TYPE, dbl_zero))"

definition MSXgetQualityByIndex :: "externs \<Rightarrow> project \<Rightarrow> objtype \<Rightarrow> int \<Rightarrow> int
    \<Rightarrow> (retcode \<times> double) option" where
  "MSXgetQualityByIndex ext MSX type index species =
     (if \<not> ProjectOpened MSX then Some (ERR_MSX_NOT_OPENED, dbl_zero)
      else if species < 1 \<or> species > Nobjects MSX SPECIES
        then Some (ERR_INVALID_OBJECT_INDEX, dbl_zero)
      else if type = NODE then
        (if index < 1 \<or> index > Nobjects MSX NODE then Some (ERR_INVALID_OBJECT_INDEX, dbl_zero)
         else map_option (\<lambda>v. (OK, v)) (MSXqual_getNodeQual ext MSX index species))
      else if type = LINK then
        (if index < 1 \<or> index > Nobjects MSX LINK then Some (ERR_INVALID_OBJECT_INDEX, dbl_zero)
         else map_option (\<lambda>v. (OK, v)) (MSXqual_getLinkQual ext MSX index species))
      else Some (ERR_INVALID_OBJECT_TYPE, dbl_zero))"

section \<open>Setters, patterns and stepping\<close>

definition MSXsetconstant :: "project \<Rightarrow> int \<Rightarrow> double \<Rightarrow> (retcode \<times> project) option" where
  "MSXsetconstant MSX index v =
     (if \<not> ProjectOpened MSX then Some (ERR_MSX_NOT_OPENED, MSX)
      else if index < 1 \<or> index > Nobjects MSX CONSTANT then Some (ERR_INVALID_OBJECT_INDEX, MSX)
      else do {
        consts \<leftarrow> update_slot (\<lambda>C. Some (C\<lparr>k_value := v\<rparr>)) (Const MSX) index;
        Some (OK, MSX\<lparr>Const := consts\<rparr>)
      })"

definition MSXsetparameter :: "project \<Rightarrow> objtype \<Rightarrow> int \<Rightarrow> int \<Rightarrow> double
    \<Rightarrow> (retcode \<times> project) option" where
  "MSXsetparameter MSX type index param v =
     (if \<not> ProjectOpened MSX then Some (ERR_MSX_NOT_OPENED, MSX)
      else if param < 1 \<or> param > Nobjects MSX PARAMETER then Some (ERR_INVALID_OBJECT_INDEX, MSX)
      else if type = NODE then
        (if index < 1 \<or> index > Nobjects MSX NODE then Some (ERR_INVALID_OBJECT_INDEX, MSX)
         else do {
           N \<leftarrow> aget (Node MSX) index;
           if n_tank N > 0 then do {
             tanks \<leftarrow> update_slot (tank_set_param param v) (Tank MSX) (n_tank N);
             Some (OK, MSX\<lparr>Tank := tanks\<rparr>)
           }
           else Some (OK, MSX)
         })
      else if type = LINK then
        (if index < 1 \<or> index > Nobjects MSX LINK then Some (ERR_INVALID_OBJECT_INDEX, MSX)
         else do {
           links \<leftarrow> update_slot (link_set_param param v) (Link MSX) index;
           Some (OK, MSX\<lparr>Link := links\<rparr>)
         })
      else Some (ERR_INVALID_OBJECT_TYPE, MSX))"

definition MSXsetinitqual :: "project \<Rightarrow> objtype \<Rightarrow> int \<Rightarrow> int \<Rightarrow> double
    \<Rightarrow> (retcode \<times> project) option" where
  "MSXsetinitqual MSX type index species v =
     (if \<not> ProjectOpened MSX then Some (ERR_MSX_NOT_OPENED, MSX)
      else if species < 1 \<or> species > Nobjects MSX SPECIES
        then Some (ERR_INVALID_OBJECT_INDEX, MSX)
      else if type = NODE then
        (if index < 1 \<or> index > Nobjects MSX NODE then Some (ERR_INVALID_OBJECT_INDEX, MSX)
         else do {
           S \<leftarrow> aget (Species MSX) species;
           if sp_type S = BULK then do {
             nodes \<leftarrow> update_slot (node_set_c0 species v) (Node MSX) index;
             Some (OK, MSX\<lparr>Node := nodes\<rparr>)
           }
           else Some (OK, MSX)
         })
      else if type = LINK then
        (if index < 1 \<or> index > Nobjects MSX LINK then Some (ERR_INVALID_OBJECT_INDEX, MSX)
         else do {
           links \<leftarrow> update_slot (link_set_c0 species v) (Link MSX) index;
           Some (OK, MSX\<lparr>Link := links\<rparr>)
         })
      else Some (ERR_INVALID_OBJECT_TYPE, MSX))"

definition MSXsetsource :: "project \<Rightarrow> int \<Rightarrow> int \<Rightarrow> int \<Rightarrow> double \<Rightarrow> int
    \<Rightarrow> (retcode \<times> project) option" where
  "MSXsetsource MSX node species type level pat0 =
     (if \<not> ProjectOpened MSX then Some (ERR_MSX_NOT_OPENED, MSX)
      else if node < 1 \<or> node > Nobjects MSX NODE then Some (ERR_INVALID_OBJECT_INDEX, MSX)
      else if species < 1 \<or> species > Nobjects MSX SPECIES
        then Some (ERR_INVALID_OBJECT_INDEX, MSX)
      else if pat0 > Nobjects MSX PATTERN then Some (ERR_INVALID_OBJECT_INDEX, MSX)
      else
        (let pat = (if pat0 < 0 then 0 else pat0)
         in if type < MSX_NOSOURCE \<or> type > MSX_FLOWPACED
              then Some (ERR_INVALID_OBJECT_PARAMS, MSX)
            else do {
              S \<leftarrow> aget (Species MSX) species;
              if sp_type S \<noteq> BULK then Some (ERR_INVALID_OBJECT_PARAMS, MSX)
              else if dbl_lt_zero level then Some (ERR_INVALID_OBJECT_PARAMS, MSX)
              else do {
                N \<leftarrow> aget (Node MSX) node;
                Some (OK, MSX\<lparr>Node := (Node MSX)[nat node := N\<lparr>n_sources :=
                  put_source \<lparr>src_type = type, src_species = species, src_c0 = level,
                              src_pat = pat\<rparr> (n_sources N)\<rparr>]\<rparr>)
              }
            }))"

text \<open>\<^verbatim>\<open>MSXaddpattern\<close>: a new array of \<open>n+1\<close> zeroed patterns receives the fields
  \<^verbatim>\<open>id\<close>, \<^verbatim>\<open>length\<close>, \<^verbatim>\<open>first\<close> and \<^verbatim>\<open>current\<close> of the old patterns \<open>1..n-1\<close>, and the new
  pattern in slot \<open>n\<close>, whose name is the key stored in the table (\<^verbatim>\<open>findID\<close>).\<close>

definition MSXaddpattern :: "project \<Rightarrow> string \<Rightarrow> (retcode \<times> project) option" where
  "MSXaddpattern MSX oid =
     (if \<not> ProjectOpened MSX then Some (ERR_MSX_NOT_OPENED, MSX)
      else if findObject MSX PATTERN oid \<ge> 1 then Some (ERR_INVALID_OBJECT_PARAMS, MSX)
      else
        (let n = Nobjects MSX PATTERN + 1
         in do {
           tmpPat \<leftarrow> fold_opt
             (\<lambda>i tmp. do {
                P \<leftarrow> aget (Pattern MSX) i;
                update_slot (\<lambda>T. Some (T\<lparr>pat_id := pat_id P, pat_length := pat_length P,
                                            pat_first := pat_first P,
                                            pat_current := pat_current P\<rparr>)) tmp i })
             [1..Nobjects MSX PATTERN] (calloc (n + 1) Spattern0);
           (case addObject MSX PATTERN oid n of
              (r, MSX1) \<Rightarrow>
                if r < 0 then Some (ERR_MEMORY, MSX1)
                else do {
                  tmpPat' \<leftarrow> update_slot
                    (\<lambda>T. Some (T\<lparr>pat_id := oid, pat_length := 0, pat_first := [],
                                 pat_current := None\<rparr>)) tmpPat n;
                  Some (OK, MSX1\<lparr>Pattern := tmpPat',
                                 Nobjects := (Nobjects MSX1)(PATTERN := Nobjects MSX1 PATTERN + 1)\<rparr>)
                })
         }))"

text \<open>\<^verbatim>\<open>MSXstep\<close>: \<open>t\<close> and \<open>tleft\<close> are the contents of \<^verbatim>\<open>*t\<close> and \<^verbatim>\<open>*tleft\<close>.\<close>

definition MSXstep :: "externs \<Rightarrow> project \<Rightarrow> int \<Rightarrow> int \<Rightarrow> (retcode \<times> int \<times> int \<times> project) option" where
  "MSXstep ext MSX t tleft =
     (if \<not> ProjectOpened MSX then Some (ERR_MSX_NOT_OPENED, t, tleft, MSX)
      else MSXqual_step ext MSX t tleft)"

section \<open>Teardown\<close>

text \<open>
  \<^verbatim>\<open>deleteObjects\<close> of msxproj.c. The result is the project it leaves and the list of
  the arguments with which it calls \<^verbatim>\<open>mathexpr_delete\<close>, in the order of the calls.
  The macro \<^verbatim>\<open>FREE(p)\<close> (declared outside the sources) releases \<open>p\<close> and sets it to
  \<^verbatim>\<open>NULL\<close>. A loop over the slots \<open>1..n\<close> of an array that is not \<^verbatim>\<open>NULL\<close> faults when
  slot \<open>n\<close> is outside the array.
\<close>

definition slots :: "'a list \<Rightarrow> int \<Rightarrow> 'a list option" where
  "slots xs n =
     (if xs = [] \<or> n < 1 then Some []
      else if in_array xs n then Some (take (nat n) (drop 1 xs))
      else None)"

text \<open>The calls of \<^verbatim>\<open>mathexpr_delete\<close> for one species: on the tank expression only if it
  is not the pipe expression, then on the pipe expression.\<close>

definition species_deletes :: "Sspecies \<Rightarrow> exprptr list" where
  "species_deletes S =
     (if sp_tankExpr S \<noteq> sp_pipeExpr S then [sp_tankExpr S] else []) @ [sp_pipeExpr S]"

definition deleteObjects :: "project \<Rightarrow> (project \<times> exprptr list) option" where
  "deleteObjects MSX = do {
     nodes \<leftarrow> slots (Node MSX) (Nobjects MSX NODE);
     links \<leftarrow> slots (Link MSX) (Nobjects MSX LINK);
     tanks \<leftarrow> slots (Tank MSX) (Nobjects MSX TANK);
     patterns \<leftarrow> slots (Pattern MSX) (Nobjects MSX PATTERN);
     species \<leftarrow> slots (Species MSX) (Nobjects MSX SPECIES);
     terms \<leftarrow> slots (Term MSX) (Nobjects MSX TERM_OBJ);
     Some (MSX\<lparr>Pattern := [], D := [], H := [], Q := [], C0 := [],
               Node := [], Link := [], Tank := [],
               Species := [], Param := [], Const := [], K := [], Term := []\<rparr>,
           concat (map species_deletes species) @ map tm_expr terms)
   }"

text \<open>The expression trees that a species owns: its pipe and tank expressions, where
  they are not \<^verbatim>\<open>NULL\<close>.\<close>

definition owned_exprs :: "Sspecies \<Rightarrow> exprptr set" where
  "owned_exprs S = {sp_pipeExpr S, sp_tankExpr S} - {0}"

section \<open>Sequences of construction calls and the node-tank links\<close>

text \<open>A call of \<^verbatim>\<open>MSXaddNode\<close>, \<^verbatim>\<open>MSXaddTank\<close> or \<^verbatim>\<open>MSXaddReservoir\<close> with its arguments,
  and a sequence of such calls in which every call returns 0: \<open>run_netops\<close> is \<open>None\<close>
  as soon as a call returns an error.\<close>

datatype netop =
    AddNode string
  | AddTank string double int double
  | AddReservoir string double int double

fun is_AddNode :: "netop \<Rightarrow> bool" where
  "is_AddNode (AddNode _) = True"
| "is_AddNode _ = False"

fun apply_netop :: "externs \<Rightarrow> project \<Rightarrow> netop \<Rightarrow> retcode \<times> project" where
  "apply_netop ext MSX (AddNode oid) = MSXaddNode ext MSX oid"
| "apply_netop ext MSX (AddTank oid v0 mm vmix) = MSXaddTank ext MSX oid v0 mm vmix"
| "apply_netop ext MSX (AddReservoir oid v0 mm vmix) = MSXaddReservoir ext MSX oid v0 mm vmix"

fun run_netops :: "externs \<Rightarrow> project \<Rightarrow> netop list \<Rightarrow> project option" where
  "run_netops ext MSX [] = Some MSX"
| "run_netops ext MSX (c # cs) =
     (case apply_netop ext MSX c of
        (r, MSX') \<Rightarrow> if r = OK then run_netops ext MSX' cs else None)"

text \<open>The node and tank arrays are consistent: the counts are not negative, the arrays
  have a slot for every index up to the count, and every tank \<open>t\<close> in
  \<open>1..Nobjects[TANK]\<close> names a node in \<open>1..Nobjects[NODE]\<close> that names \<open>t\<close> back.\<close>

definition node_tank_consistent :: "project \<Rightarrow> bool" where
  "node_tank_consistent MSX =
     (0 \<le> Nobjects MSX NODE \<and> 0 \<le> Nobjects MSX TANK \<and>
      (1 \<le> Nobjects MSX NODE \<longrightarrow> length (Node MSX) = nat (Nobjects MSX NODE) + 1) \<and>
      (1 \<le> Nobjects MSX TANK \<longrightarrow> length (Tank MSX) = nat (Nobjects MSX TANK) + 1) \<and>
      (\<forall>t \<in> {1..Nobjects MSX TANK}.
         1 \<le> t_node (Tank MSX ! nat t) \<and> t_node (Tank MSX ! nat t) \<le> Nobjects MSX NODE \<and>
         n_tank (Node MSX ! nat (t_node (Tank MSX ! nat t))) = t))"

text \<open>\<open>tank_added a MSX M oid v0 mm vmix\<close>: the project \<open>M\<close> is \<open>MSX\<close> with one more tank
  and one more node: the new tank entry has surface area \<open>a\<close>, the given initial
  volume, mixing model and mixing-compartment volume, and names the new node; the new
  node entry names the new tank; the entries that were allocated before are the same.\<close>

definition tank_added :: "double \<Rightarrow> project \<Rightarrow> project \<Rightarrow> string \<Rightarrow> double \<Rightarrow> int \<Rightarrow> double
    \<Rightarrow> bool" where
  "tank_added a MSX M oid v0 mm vmix =
     (let i = Nobjects MSX TANK + 1; j = Nobjects MSX NODE + 1 in
      Nobjects M TANK = i \<and> Nobjects M NODE = j \<and>
      in_array (Tank M) i \<and> in_array (Node M) j \<and>
      t_a (Tank M ! nat i) = a \<and>
      t_v0 (Tank M ! nat i) = v0 \<and>
      t_mixModel (Tank M ! nat i) = mm \<and>
      t_vMix (Tank M ! nat i) = vmix \<and>
      t_id (Tank M ! nat i) = oid \<and>
      t_node (Tank M ! nat i) = j \<and>
      n_tank (Node M ! nat j) = i \<and>
      n_id (Node M ! nat j) = oid \<and>
      (\<forall>k \<in> {1..Nobjects MSX NODE}. in_array (Node MSX) k \<longrightarrow> Node M ! nat k = Node MSX ! nat k) \<and>
      (\<forall>k \<in> {1..Nobjects MSX TANK}. in_array (Tank MSX) k \<longrightarrow> Tank M ! nat k = Tank MSX ! nat k))"

section \<open>Notions used to state the properties\<close>

text \<open>\<open>returns r res\<close>: the call whose result is \<open>res\<close> returns the code \<open>r\<close> (and does
  not fault).\<close>

definition returns :: "retcode \<Rightarrow> (retcode \<times> 'a) option \<Rightarrow> bool" where
  "returns r res = (map_option fst res = Some r)"

text \<open>The project with other contents in slot 0 of its object arrays.\<close>

definition with_slot0 :: "project \<Rightarrow> Snode \<Rightarrow> Slink \<Rightarrow> Stank \<Rightarrow> Sspecies \<Rightarrow> Sparam \<Rightarrow> Sconst
    \<Rightarrow> Spattern \<Rightarrow> project" where
  "with_slot0 MSX n l t s p c pt =
     MSX\<lparr>Node := (Node MSX)[0 := n], Link := (Link MSX)[0 := l], Tank := (Tank MSX)[0 := t],
         Species := (Species MSX)[0 := s], Param := (Param MSX)[0 := p],
         Const := (Const MSX)[0 := c], Pattern := (Pattern MSX)[0 := pt]\<rparr>"

text \<open>The project \<open>MSX\<close> with the cursor of pattern \<open>p\<close> moved to \<open>cur\<close>: the only
  thing a call of \<^verbatim>\<open>MSXgetpatternvalue\<close> changes.\<close>

definition with_cursor :: "project \<Rightarrow> int \<Rightarrow> nat option \<Rightarrow> project" where
  "with_cursor MSX p cur =
     MSX\<lparr>Pattern := (Pattern MSX)[nat p := (Pattern MSX ! nat p)\<lparr>pat_current := cur\<rparr>]\<rparr>"

text \<open>The array after the turns \<open>0..n-1\<close> of a loop \<^verbatim>\<open>dst[i+1] = src[i]\<close>.\<close>

definition shifted_in :: "'a list \<Rightarrow> nat \<Rightarrow> 'a list \<Rightarrow> 'a list" where
  "shifted_in src n dst = take 1 dst @ take n src @ drop (Suc n) dst"

text \<open>\<open>allocated xs n\<close>: the array has a slot for every index up to the count \<open>n\<close>.\<close>

definition allocated :: "'a list \<Rightarrow> int \<Rightarrow> bool" where
  "allocated xs n = (n < 1 \<or> in_array xs n)"

text \<open>Expression trees are owned exclusively: two different species own no tree in
  common, and no term's expression is a tree that a species owns.\<close>

definition exprs_exclusive :: "project \<Rightarrow> bool" where
  "exprs_exclusive MSX =
     ((\<forall>i \<in> {1..Nobjects MSX SPECIES}. \<forall>j \<in> {1..Nobjects MSX SPECIES}. i \<noteq> j \<longrightarrow>
         owned_exprs (Species MSX ! nat i) \<inter> owned_exprs (Species MSX ! nat j) = {}) \<and>
      (\<forall>i \<in> {1..Nobjects MSX SPECIES}. \<forall>k \<in> {1..Nobjects MSX TERM_OBJ}.
         tm_expr (Term MSX ! nat k) \<notin> owned_exprs (Species MSX ! nat i)))"

section \<open>Sample states\<close>

text \<open>An opened project without objects: both flags set, every count zero, every array
  \<^verbatim>\<open>NULL\<close>, the hash tables empty.\<close>

definition project0 :: project where
  "project0 = \<lparr>ProjectOpened = True, QualityOpened = True, Nobjects = (\<lambda>_. 0),
     Node = [], Link = [], Tank = [], Species = [], Term = [], Param = [], Const = [],
     Pattern = [], C0 = [], K = [], D = [], H = [], Q = [],
     AreaUnits = 0, RateUnits = 0, Solver = 0, Coupling = 0, Compiler = 0, Qstep = 300,
     DefRtol = dbl_zero, DefAtol = dbl_zero, PageSize = 0, RptFile_name = [],
     Htable = (\<lambda>_ _. None), MathExprs = []\<rparr>"

text \<open>The same project after \<^verbatim>\<open>MSXaddpattern(MSX, "P1")\<close>: one time pattern, still
  without multipliers.\<close>

definition project_1pat :: project where
  "project_1pat = project0\<lparr>Nobjects := (Nobjects project0)(PATTERN := 1),
     Pattern := [Spattern0, Spattern0\<lparr>pat_id := ''P1''\<rparr>],
     Htable := (Htable project0)(PATTERN := (Htable project0 PATTERN)(''P1'' \<mapsto> 1))\<rparr>"

text \<open>A sample instance of the helpers, used to run the model on concrete inputs: every
  name passes \<open>checkID\<close>, a keyword matches when it is equal to the string, and
  \<open>findmatch0\<close> is the position of the string in the table.\<close>

fun findmatch0 :: "string \<Rightarrow> string list \<Rightarrow> int" where
  "findmatch0 s [] = - 1"
| "findmatch0 s (w # ws) =
     (if s = w then 0 else (let k = findmatch0 s ws in if k < 0 then k else k + 1))"

definition ext0 :: externs where
  "ext0 = \<lparr>checkID = (\<lambda>_ _. OK),
     MSXutils_findmatch = findmatch0,
     MSXutils_match = (\<lambda>s w. s = w),
     MSXutils_getDouble = (\<lambda>s y. (False, dbl_zero)),
     MSXutils_getInt = (\<lambda>s y. (False, 0)),
     atoi = (\<lambda>s. 0),
     AreaUnitsWords = [''FT2'', ''M2'', ''CM2''],
     TimeUnitsWords = [''SEC'', ''MIN'', ''HR'', ''DAY''],
     SolverTypeWords = [''EUL'', ''RK5'', ''ROS2''],
     CouplingWords = [''NONE'', ''FULL''],
     CompilerWords = [''NONE'', ''VC'', ''GC''],
     ReportWords = [''NODE'', ''LINK'', ''SPECIE'', ''FILE'', ''PAGESIZE''],
     mathexpr_create = (\<lambda>_ _. None),
     MSXqual_step = (\<lambda>MSX t tleft. Some (OK, t, tleft, MSX)),
     MSXqual_getNodeQual = (\<lambda>_ _ _. Some dbl_zero),
     MSXqual_getLinkQual = (\<lambda>_ _ _. Some dbl_zero)\<rparr>"

text \<open>A project with two nodes and one link whose hydraulic arrays are allocated.\<close>

definition project_hyd :: project where
  "project_hyd = project0\<lparr>Nobjects := (Nobjects project0)(NODE := 2, LINK := 1),
     D := [0, 0, 0], H := [0, 0, 0], Q := [0, 0]\<rparr>"

text \<open>A project with two species and one term: species 1 has the expression at address
  1 for pipes and for tanks (the tank expression aliases the pipe expression), species 2
  has the expressions at addresses 2 and 3, and the term has the expression at
  address 4.\<close>

definition project_exprs :: project where
  "project_exprs = project0\<lparr>Nobjects := (Nobjects project0)(SPECIES := 2, TERM_OBJ := 1),
     Species := [Sspecies0, Sspecies0\<lparr>sp_pipeExpr := 1, sp_tankExpr := 1\<rparr>,
                 Sspecies0\<lparr>sp_pipeExpr := 2, sp_tankExpr := 3\<rparr>],
     Term := [Sterm0, Sterm0\<lparr>tm_expr := 4\<rparr>],
     MathExprs := [0, 0, 0, 0]\<rparr>"

text \<open>A project that is not opened.\<close>

definition project_closed :: project where
  "project_closed = project0\<lparr>ProjectOpened := False, QualityOpened := False\<rparr>"


section \<open>Properties of the time patterns\<close>

text \<open>The sample project with one pattern is what \<^verbatim>\<open>MSXaddpattern\<close> makes of the empty
  project.\<close>

lemma addpattern_sample: "MSXaddpattern project0 ''P1'' = Some (OK, project_1pat)"
  by (simp add: MSXaddpattern_def project_1pat_def project0_def findObject_def addObject_def
      update_slot_def aget_def in_array_def calloc_def Spattern0_def Let_def
      numeral_2_eq_2)

lemma aget_Some: "in_array xs i \<Longrightarrow> aget xs i = Some (xs ! nat i)"
  by (simp add: aget_def)

lemma setpattern_item_tail:
  "pat_first P = [] \<or> pat_current P = Some (length (pat_first P) - 1) \<Longrightarrow>
   setpattern_item P x =
     P\<lparr>pat_first := pat_first P @ [x], pat_length := pat_length P + 1,
       pat_current := Some (length (pat_first P))\<rparr>"
  by (cases "pat_first P = []") (auto simp: setpattern_item_def Let_def)

lemma foldl_setpattern_item:
  "pat_first P = [] \<or> pat_current P = Some (length (pat_first P) - 1) \<Longrightarrow>
   foldl setpattern_item P xs =
     P\<lparr>pat_first := pat_first P @ xs, pat_length := pat_length P + int (length xs),
       pat_current := (if xs = [] then pat_current P
                       else Some (length (pat_first P) + length xs - 1))\<rparr>"
proof (induction xs arbitrary: P)
  case Nil
  then show ?case by simp
next
  case (Cons x xs)
  have step: "setpattern_item P x =
     P\<lparr>pat_first := pat_first P @ [x], pat_length := pat_length P + 1,
       pat_current := Some (length (pat_first P))\<rparr>"
    using Cons.prems by (rule setpattern_item_tail)
  show ?case
    by (simp add: step Cons.IH)
qed

lemma getpattern_scan_nth:
  "i < length vs \<Longrightarrow>
   getpattern_scan vs n (n + int i) k = (Some (vs ! i), Some (k + i))"
proof (induction vs arbitrary: n i k)
  case Nil
  then show ?case by simp
next
  case (Cons v vs)
  show ?case
  proof (cases i)
    case 0
    then show ?thesis by simp
  next
    case (Suc j)
    with Cons.prems have "j < length vs" by simp
    from Cons.IH [OF this, of "n + 1" "Suc k"] Suc show ?thesis
      by (simp add: algebra_simps)
  qed
qed

text \<open>
  Claim C3. On an opened project, for a pattern index \<open>p\<close> in \<open>1..Nobjects[PATTERN]\<close>
  whose slot is allocated and for every array \<open>m\<close> of multipliers, of length \<open>n\<close>:
  \<^verbatim>\<open>MSXsetpattern(p, m, n)\<close> returns 0; after it \<^verbatim>\<open>MSXgetpatternlen(p)\<close> returns 0 and
  the length \<open>n\<close>; and for every \<open>i < n\<close>, \<^verbatim>\<open>MSXgetpatternvalue(p, i+1)\<close> returns 0 and
  stores \<open>m[i]\<close>, the same 64 bits, in its output. The call of
  \<^verbatim>\<open>MSXgetpatternvalue\<close> moves the cursor of the pattern and changes nothing else, and
  its result does not depend on where the cursor stands, so the same holds for every
  later call.
\<close>

theorem setpattern_getpatternvalue_roundtrip:
  assumes opened: "ProjectOpened MSX" and lo: "1 \<le> p" and hi: "p \<le> Nobjects MSX PATTERN"
    and alloc: "in_array (Pattern MSX) p"
  shows "\<exists>MSX'. MSXsetpattern MSX p m (int (length m)) = Some (OK, MSX') \<and>
           MSXgetpatternlen MSX' p = Some (OK, int (length m)) \<and>
           (\<forall>i<length m. \<forall>cur.
              MSXgetpatternvalue (with_cursor MSX' p cur) p (int i + 1) =
                Some (OK, m ! i, with_cursor MSX' p (Some i)))"
proof -
  define P where "P = Pattern MSX ! nat p"
  define P3 where "P3 = P\<lparr>pat_first := m, pat_length := int (length m),
     pat_interval := 0, pat_current := (if m = [] then None else Some 0)\<rparr>"
  define MSX' where "MSX' = MSX\<lparr>Pattern := (Pattern MSX)[nat p := P3]\<rparr>"
  have P: "aget (Pattern MSX) p = Some P"
    using alloc by (simp add: aget_Some P_def)
  have fold: "foldl setpattern_item (P\<lparr>pat_first := [], pat_length := 0\<rparr>) m =
      P\<lparr>pat_first := m, pat_length := int (length m),
        pat_current := (if m = [] then pat_current P else Some (length m - 1))\<rparr>"
    by (simp add: foldl_setpattern_item)
  have set: "MSXsetpattern MSX p m (int (length m)) = Some (OK, MSX')"
    using opened lo hi P
    by (simp add: MSXsetpattern_def Let_def fold MSX'_def P3_def)
  have nth: "nat p < length (Pattern MSX)"
    using alloc lo by (simp add: in_array_def)
  have alloc': "\<And>cur. aget (Pattern (with_cursor MSX' p cur)) p = Some (P3\<lparr>pat_current := cur\<rparr>)"
    using alloc nth by (simp add: aget_def in_array_def with_cursor_def MSX'_def)
  have len: "MSXgetpatternlen MSX' p = Some (OK, int (length m))"
    using opened lo hi alloc nth
    by (simp add: MSXgetpatternlen_def MSX'_def aget_def in_array_def P3_def)
  have get: "MSXgetpatternvalue (with_cursor MSX' p cur) p (int i + 1) =
                Some (OK, m ! i, with_cursor MSX' p (Some i))" if "i < length m" for i cur
  proof -
    have scan: "getpattern_scan m 1 (int i + 1) 0 = (Some (m ! i), Some i)"
      using getpattern_scan_nth [OF that, of 1 0] by (simp add: add.commute)
    have flags: "ProjectOpened (with_cursor MSX' p cur)"
      "Nobjects (with_cursor MSX' p cur) PATTERN = Nobjects MSX PATTERN"
      using opened by (simp_all add: with_cursor_def MSX'_def)
    show ?thesis
      using lo hi that nth
      by (simp add: MSXgetpatternvalue_def flags alloc' P3_def scan)
        (simp add: with_cursor_def MSX'_def P3_def)
  qed
  show ?thesis
    using set len get by blast
qed

theorem setpattern_getpatternvalue_roundtrip_witness:
  "\<exists>MSX'. MSXsetpattern project_1pat 1 [5, 7] 2 = Some (OK, MSX') \<and>
          MSXgetpatternlen MSX' 1 = Some (OK, 2) \<and>
          MSXgetpatternvalue (with_cursor MSX' 1 None) 1 2 =
            Some (OK, 7, with_cursor MSX' 1 (Some 1))"
proof -
  have "ProjectOpened project_1pat" "1 \<le> Nobjects project_1pat PATTERN"
    "in_array (Pattern project_1pat) 1"
    by (simp_all add: project_1pat_def project0_def in_array_def)
  from setpattern_getpatternvalue_roundtrip [OF this(1) order_refl this(2) this(3), of "[5, 7]"]
  obtain MSX' where a: "MSXsetpattern project_1pat 1 [5, 7] 2 = Some (OK, MSX')"
    and b: "MSXgetpatternlen MSX' 1 = Some (OK, 2)"
    and c: "\<forall>i<2. \<forall>cur. MSXgetpatternvalue (with_cursor MSX' 1 cur) 1 (int i + 1) =
                Some (OK, [5, 7] ! i, with_cursor MSX' 1 (Some i))"
    by auto
  from c [rule_format, of 1 None] have "MSXgetpatternvalue (with_cursor MSX' 1 None) 1 2 =
            Some (OK, 7, with_cursor MSX' 1 (Some 1))"
    by simp
  with a b show ?thesis by blast
qed

text \<open>
  Claim C9. On an opened project, for a valid pattern index \<open>p\<close> whose pattern \<open>P\<close> has
  length \<open>L\<close>: \<^verbatim>\<open>MSXgetpatternvalue\<close> called with a period above \<open>L\<close> returns 0, leaves
  \<open>0.0\<close> in its output and does not change the project; \<^verbatim>\<open>MSXsetpatternvalue\<close> called
  with a period outside \<open>1..L\<close> returns \<^verbatim>\<open>ERR_INVALID_OBJECT_PARAMS\<close> and does not change
  the project.
\<close>

theorem getpatternvalue_absorbs_setpatternvalue_rejects:
  assumes "ProjectOpened MSX" and "1 \<le> p" and "p \<le> Nobjects MSX PATTERN"
    and "aget (Pattern MSX) p = Some P"
  shows "(pat_length P < period \<longrightarrow>
            MSXgetpatternvalue MSX p period = Some (OK, dbl_zero, MSX)) \<and>
         (period < 1 \<or> pat_length P < period \<longrightarrow>
            MSXsetpatternvalue MSX p period x = Some (ERR_INVALID_OBJECT_PARAMS, MSX))"
  using assms by (auto simp: MSXgetpatternvalue_def MSXsetpatternvalue_def)

theorem getpatternvalue_absorbs_setpatternvalue_rejects_witness:
  "MSXgetpatternvalue project_1pat 1 1 = Some (OK, dbl_zero, project_1pat) \<and>
   MSXsetpatternvalue project_1pat 1 1 9 = Some (ERR_INVALID_OBJECT_PARAMS, project_1pat)"
proof -
  have "ProjectOpened project_1pat" "1 \<le> Nobjects project_1pat PATTERN"
    "aget (Pattern project_1pat) 1 = Some (Spattern0\<lparr>pat_id := ''P1''\<rparr>)"
    by (simp_all add: project_1pat_def project0_def aget_def in_array_def)
  from getpatternvalue_absorbs_setpatternvalue_rejects
    [OF this(1) order_refl this(2) this(3), of 1 9]
  show ?thesis by (simp add: Spattern0_def)
qed

section \<open>Properties of the network construction\<close>

lemma length_grow: "1 \<le> n \<Longrightarrow> length (grow xs n z) = nat n + 1"
  by (auto simp: grow_def calloc_def realloc_def)

lemma nth_grow_old:
  "1 < n \<Longrightarrow> k < length xs \<Longrightarrow> k \<le> nat n \<Longrightarrow> grow xs n z ! k = xs ! k"
  by (auto simp: grow_def realloc_def nth_append)

lemma addObject_frame:
  "addObject MSX type oid n = (r, MSX1) \<Longrightarrow>
   0 \<le> r \<and> Nobjects MSX1 = Nobjects MSX \<and> Node MSX1 = Node MSX \<and> Tank MSX1 = Tank MSX \<and>
   Link MSX1 = Link MSX \<and> ProjectOpened MSX1 = ProjectOpened MSX \<and>
   QualityOpened MSX1 = QualityOpened MSX"
  by (auto simp: addObject_def split: if_splits)

lemma add_tank_result:
  assumes pre: "\<not> not_opened MSX" "findObject MSX TANK oid < 1" "checkID ext MSX oid = OK"
    and nn: "0 \<le> Nobjects MSX NODE" and nt: "0 \<le> Nobjects MSX TANK"
    and res: "add_tank a ext MSX oid v0 mm vmix = (r, M)"
  shows "r = OK \<and>
     Nobjects M TANK = Nobjects MSX TANK + 1 \<and>
     Nobjects M NODE = Nobjects MSX NODE + 1 \<and>
     (\<forall>ty. ty \<noteq> TANK \<longrightarrow> ty \<noteq> NODE \<longrightarrow> Nobjects M ty = Nobjects MSX ty) \<and>
     length (Tank M) = nat (Nobjects MSX TANK) + 2 \<and>
     length (Node M) = nat (Nobjects MSX NODE) + 2 \<and>
     t_a (Tank M ! nat (Nobjects MSX TANK + 1)) = a \<and>
     t_v0 (Tank M ! nat (Nobjects MSX TANK + 1)) = v0 \<and>
     t_mixModel (Tank M ! nat (Nobjects MSX TANK + 1)) = mm \<and>
     t_vMix (Tank M ! nat (Nobjects MSX TANK + 1)) = vmix \<and>
     t_id (Tank M ! nat (Nobjects MSX TANK + 1)) = oid \<and>
     t_node (Tank M ! nat (Nobjects MSX TANK + 1)) = Nobjects MSX NODE + 1 \<and>
     n_tank (Node M ! nat (Nobjects MSX NODE + 1)) = Nobjects MSX TANK + 1 \<and>
     n_id (Node M ! nat (Nobjects MSX NODE + 1)) = oid \<and>
     (\<forall>k. 1 \<le> k \<longrightarrow> k \<le> Nobjects MSX NODE \<longrightarrow> in_array (Node MSX) k \<longrightarrow>
          Node M ! nat k = Node MSX ! nat k) \<and>
     (\<forall>k. 1 \<le> k \<longrightarrow> k \<le> Nobjects MSX TANK \<longrightarrow> in_array (Tank MSX) k \<longrightarrow>
          Tank M ! nat k = Tank MSX ! nat k)"
proof -
  obtain r1 MSX1 where a1: "addObject MSX TANK oid (Nobjects MSX TANK + 1) = (r1, MSX1)"
    by (cases "addObject MSX TANK oid (Nobjects MSX TANK + 1)")
  obtain r2 MSX2 where a2: "addObject MSX1 NODE oid (Nobjects MSX NODE + 1) = (r2, MSX2)"
    by (cases "addObject MSX1 NODE oid (Nobjects MSX NODE + 1)")
  note f1 = addObject_frame [OF a1] and f2 = addObject_frame [OF a2]
  have lt: "length (grow (Tank MSX) (Nobjects MSX TANK + 1) Stank0) = nat (Nobjects MSX TANK) + 2"
    using nt length_grow [of "Nobjects MSX TANK + 1" "Tank MSX" Stank0] by (simp add: nat_add_distrib)
  have ln: "length (grow (Node MSX) (Nobjects MSX NODE + 1) Snode0) = nat (Nobjects MSX NODE) + 2"
    using nn length_grow [of "Nobjects MSX NODE + 1" "Node MSX" Snode0] by (simp add: nat_add_distrib)
  have M: "r = OK" "M = MSX2\<lparr>Tank := (grow (Tank MSX) (Nobjects MSX TANK + 1) Stank0)
        [nat (Nobjects MSX TANK + 1) :=
           (grow (Tank MSX) (Nobjects MSX TANK + 1) Stank0 ! nat (Nobjects MSX TANK + 1))
             \<lparr>t_a := a, t_v0 := v0, t_mixModel := mm, t_vMix := vmix, t_id := oid,
              t_node := Nobjects MSX NODE + 1\<rparr>],
      Node := (grow (Node MSX) (Nobjects MSX NODE + 1) Snode0)
        [nat (Nobjects MSX NODE + 1) :=
           (grow (Node MSX) (Nobjects MSX NODE + 1) Snode0 ! nat (Nobjects MSX NODE + 1))
             \<lparr>n_tank := Nobjects MSX TANK + 1, n_rpt := 0, n_id := oid, n_sources := []\<rparr>],
      Nobjects := (Nobjects MSX)(NODE := Nobjects MSX NODE + 1, TANK := Nobjects MSX TANK + 1)\<rparr>"
    using res pre f1 f2 by (simp_all add: add_tank_def a1 a2 Let_def)
  have old_n: "Node M ! nat k = Node MSX ! nat k"
    if "1 \<le> k" "k \<le> Nobjects MSX NODE" "in_array (Node MSX) k" for k
    using that nn nth_grow_old [of "Nobjects MSX NODE + 1" "nat k" "Node MSX" Snode0]
    by (simp add: M(2) in_array_def)
  have old_t: "Tank M ! nat k = Tank MSX ! nat k"
    if "1 \<le> k" "k \<le> Nobjects MSX TANK" "in_array (Tank MSX) k" for k
    using that nt nth_grow_old [of "Nobjects MSX TANK + 1" "nat k" "Tank MSX" Stank0]
    by (simp add: M(2) in_array_def)
  show ?thesis
    using nn nt lt ln old_n old_t by (simp add: M nat_add_distrib)
qed

text \<open>
  Claim C7. On a project that passes the opened-guard, for a name that is not yet a
  tank and that \<open>checkID\<close> accepts: \<^verbatim>\<open>MSXaddTank\<close> and \<^verbatim>\<open>MSXaddReservoir\<close> both return 0;
  the tank entry that \<^verbatim>\<open>MSXaddTank\<close> creates has surface area \<open>1.0\<close> and the one that
  \<^verbatim>\<open>MSXaddReservoir\<close> creates has surface area \<open>0.0\<close> (two different values); both
  entries hold the given initial volume, mixing model and mixing-compartment volume;
  and both calls append a node entry that names the new tank, which names it back
  (\<open>tank_added\<close>).
\<close>

theorem addTank_addReservoir_entries:
  assumes pre: "\<not> not_opened MSX" "findObject MSX TANK oid < 1" "checkID ext MSX oid = OK"
    and nn: "0 \<le> Nobjects MSX NODE" and nt: "0 \<le> Nobjects MSX TANK"
  shows "\<exists>MT MR. MSXaddTank ext MSX oid v0 mm vmix = (OK, MT) \<and>
           MSXaddReservoir ext MSX oid v0 mm vmix = (OK, MR) \<and>
           t_a (Tank MT ! nat (Nobjects MSX TANK + 1)) = dbl_one \<and>
           t_a (Tank MR ! nat (Nobjects MSX TANK + 1)) = dbl_zero \<and>
           dbl_one \<noteq> dbl_zero \<and>
           tank_added dbl_one MSX MT oid v0 mm vmix \<and>
           tank_added dbl_zero MSX MR oid v0 mm vmix"
proof -
  have added: "r = OK \<and> tank_added a MSX M oid v0 mm vmix"
    if "add_tank a ext MSX oid v0 mm vmix = (r, M)" for a r M
    using add_tank_result [OF pre nn nt that] nn nt
    by (simp add: tank_added_def Let_def nat_add_distrib) (simp add: in_array_def)
  obtain rT MT where T: "add_tank dbl_one ext MSX oid v0 mm vmix = (rT, MT)"
    by (cases "add_tank dbl_one ext MSX oid v0 mm vmix")
  obtain rR MR where R: "add_tank dbl_zero ext MSX oid v0 mm vmix = (rR, MR)"
    by (cases "add_tank dbl_zero ext MSX oid v0 mm vmix")
  have "dbl_one \<noteq> dbl_zero"
    by (simp add: dbl_one_def dbl_zero_def)
  with added [OF T] added [OF R] T R show ?thesis
    by (auto simp: MSXaddTank_def MSXaddReservoir_def tank_added_def Let_def)
qed

theorem addTank_addReservoir_entries_witness:
  "\<exists>MT MR. MSXaddTank ext0 project0 ''T1'' 5 0 7 = (OK, MT) \<and>
           MSXaddReservoir ext0 project0 ''T1'' 5 0 7 = (OK, MR) \<and>
           t_a (Tank MT ! 1) = dbl_one \<and> t_a (Tank MR ! 1) = dbl_zero \<and>
           t_v0 (Tank MT ! 1) = 5 \<and> t_vMix (Tank MR ! 1) = 7 \<and>
           n_tank (Node MT ! 1) = 1 \<and> n_tank (Node MR ! 1) = 1"
proof -
  have "\<not> not_opened project0" "findObject project0 TANK ''T1'' < 1"
    "checkID ext0 project0 ''T1'' = OK" "0 \<le> Nobjects project0 NODE"
    "0 \<le> Nobjects project0 TANK"
    by (simp_all add: not_opened_def project0_def findObject_def ext0_def)
  from addTank_addReservoir_entries [OF this, of 5 0 7]
  obtain MT MR where "MSXaddTank ext0 project0 ''T1'' 5 0 7 = (OK, MT)"
    "MSXaddReservoir ext0 project0 ''T1'' 5 0 7 = (OK, MR)"
    "tank_added dbl_one project0 MT ''T1'' 5 0 7"
    "tank_added dbl_zero project0 MR ''T1'' 5 0 7"
    by blast
  then show ?thesis
    by (simp add: tank_added_def Let_def project0_def)
qed

lemma addNode_result:
  assumes nn: "0 \<le> Nobjects MSX NODE" and res: "MSXaddNode ext MSX oid = (OK, M)"
  shows "Nobjects M NODE = Nobjects MSX NODE + 1 \<and>
     Nobjects M TANK = Nobjects MSX TANK \<and> Tank M = Tank MSX \<and>
     length (Node M) = nat (Nobjects MSX NODE) + 2 \<and>
     n_tank (Node M ! nat (Nobjects MSX NODE + 1)) = 0 \<and>
     (\<forall>k. 1 \<le> k \<longrightarrow> k \<le> Nobjects MSX NODE \<longrightarrow> in_array (Node MSX) k \<longrightarrow>
          Node M ! nat k = Node MSX ! nat k)"
proof -
  obtain r1 MSX1 where a1: "addObject MSX NODE oid (Nobjects MSX NODE + 1) = (r1, MSX1)"
    by (cases "addObject MSX NODE oid (Nobjects MSX NODE + 1)")
  note f1 = addObject_frame [OF a1]
  have ln: "length (grow (Node MSX) (Nobjects MSX NODE + 1) Snode0) = nat (Nobjects MSX NODE) + 2"
    using nn length_grow [of "Nobjects MSX NODE + 1" "Node MSX" Snode0] by (simp add: nat_add_distrib)
  have M: "M = MSX1\<lparr>Node := (grow (Node MSX) (Nobjects MSX NODE + 1) Snode0)
        [nat (Nobjects MSX NODE + 1) :=
           (grow (Node MSX) (Nobjects MSX NODE + 1) Snode0 ! nat (Nobjects MSX NODE + 1))
             \<lparr>n_rpt := 0, n_id := oid, n_tank := 0, n_sources := []\<rparr>],
      Nobjects := (Nobjects MSX)(NODE := Nobjects MSX NODE + 1)\<rparr>"
    using res f1 by (simp add: MSXaddNode_def a1 Let_def split: if_splits)
  have old_n: "Node M ! nat k = Node MSX ! nat k"
    if "1 \<le> k" "k \<le> Nobjects MSX NODE" "in_array (Node MSX) k" for k
    using that nn nth_grow_old [of "Nobjects MSX NODE + 1" "nat k" "Node MSX" Snode0]
    by (simp add: M in_array_def)
  show ?thesis
    using nn ln old_n f1 by (simp add: M nat_add_distrib)
qed

lemma add_tank_ok_pre:
  "add_tank a ext MSX oid v0 mm vmix = (OK, M) \<Longrightarrow>
   \<not> not_opened MSX \<and> findObject MSX TANK oid < 1 \<and> checkID ext MSX oid = OK"
  by (auto simp: add_tank_def split: if_splits)

lemma addNode_consistent:
  assumes inv: "node_tank_consistent MSX" and res: "MSXaddNode ext MSX oid = (OK, M)"
  shows "node_tank_consistent M"
proof -
  from inv have nn: "0 \<le> Nobjects MSX NODE" by (simp add: node_tank_consistent_def)
  note r = addNode_result [OF nn res]
  have "1 \<le> t_node (Tank M ! nat t) \<and> t_node (Tank M ! nat t) \<le> Nobjects M NODE \<and>
        n_tank (Node M ! nat (t_node (Tank M ! nat t))) = t"
    if t: "t \<in> {1..Nobjects M TANK}" for t
  proof -
    from t r have t': "t \<in> {1..Nobjects MSX TANK}" by simp
    with inv have a: "1 \<le> t_node (Tank MSX ! nat t)" "t_node (Tank MSX ! nat t) \<le> Nobjects MSX NODE"
      "n_tank (Node MSX ! nat (t_node (Tank MSX ! nat t))) = t"
      by (simp_all add: node_tank_consistent_def)
    from a(1,2) inv have "in_array (Node MSX) (t_node (Tank MSX ! nat t))"
      by (simp add: node_tank_consistent_def in_array_def)
    with r a show ?thesis by simp
  qed
  with inv r nn show ?thesis
    by (simp add: node_tank_consistent_def nat_add_distrib)
qed

lemma add_tank_consistent:
  assumes inv: "node_tank_consistent MSX" and res: "add_tank a ext MSX oid v0 mm vmix = (OK, M)"
  shows "node_tank_consistent M \<and> Nobjects M NODE = Nobjects MSX NODE + 1 \<and>
     (\<forall>k. 1 \<le> k \<longrightarrow> k \<le> Nobjects MSX NODE \<longrightarrow> Node M ! nat k = Node MSX ! nat k)"
proof -
  from inv have nn: "0 \<le> Nobjects MSX NODE" and nt: "0 \<le> Nobjects MSX TANK"
    by (simp_all add: node_tank_consistent_def)
  from add_tank_ok_pre [OF res]
  have pre: "\<not> not_opened MSX" "findObject MSX TANK oid < 1" "checkID ext MSX oid = OK"
    by simp_all
  note r = add_tank_result [OF pre nn nt res]
  have in_n: "in_array (Node MSX) k" if "1 \<le> k" "k \<le> Nobjects MSX NODE" for k
    using that inv by (simp add: node_tank_consistent_def in_array_def)
  have in_t: "in_array (Tank MSX) k" if "1 \<le> k" "k \<le> Nobjects MSX TANK" for k
    using that inv by (simp add: node_tank_consistent_def in_array_def)
  have old_n: "Node M ! nat k = Node MSX ! nat k" if "1 \<le> k" "k \<le> Nobjects MSX NODE" for k
    using that r in_n by simp
  have "1 \<le> t_node (Tank M ! nat t) \<and> t_node (Tank M ! nat t) \<le> Nobjects M NODE \<and>
        n_tank (Node M ! nat (t_node (Tank M ! nat t))) = t"
    if t: "t \<in> {1..Nobjects M TANK}" for t
  proof (cases "t = Nobjects MSX TANK + 1")
    case True
    with r nn nt show ?thesis by simp
  next
    case False
    with t r have t': "1 \<le> t" "t \<le> Nobjects MSX TANK" by simp_all
    with inv have a: "1 \<le> t_node (Tank MSX ! nat t)" "t_node (Tank MSX ! nat t) \<le> Nobjects MSX NODE"
      "n_tank (Node MSX ! nat (t_node (Tank MSX ! nat t))) = t"
      by (simp_all add: node_tank_consistent_def)
    have "Tank M ! nat t = Tank MSX ! nat t"
      using r t' in_t by simp
    with a old_n [OF a(1,2)] r show ?thesis by simp
  qed
  with inv r old_n nn nt show ?thesis
    by (simp add: node_tank_consistent_def nat_add_distrib)
qed

lemma apply_netop_consistent:
  assumes inv: "node_tank_consistent MSX" and res: "apply_netop ext MSX c = (OK, M)"
  shows "node_tank_consistent M \<and> Nobjects M NODE = Nobjects MSX NODE + 1 \<and>
     (is_AddNode c \<longrightarrow> n_tank (Node M ! nat (Nobjects MSX NODE + 1)) = 0) \<and>
     (\<forall>k. 1 \<le> k \<longrightarrow> k \<le> Nobjects MSX NODE \<longrightarrow> Node M ! nat k = Node MSX ! nat k)"
proof (cases c)
  case (AddNode oid)
  with res have res': "MSXaddNode ext MSX oid = (OK, M)" by simp
  from inv have nn: "0 \<le> Nobjects MSX NODE" by (simp add: node_tank_consistent_def)
  have in_n: "in_array (Node MSX) k" if "1 \<le> k" "k \<le> Nobjects MSX NODE" for k
    using that inv by (simp add: node_tank_consistent_def in_array_def)
  from addNode_consistent [OF inv res'] addNode_result [OF nn res'] in_n AddNode
  show ?thesis by simp
next
  case (AddTank oid v0 mm vmix)
  with res have "add_tank dbl_one ext MSX oid v0 mm vmix = (OK, M)"
    by (simp add: MSXaddTank_def)
  from add_tank_consistent [OF inv this] AddTank show ?thesis by simp
next
  case (AddReservoir oid v0 mm vmix)
  with res have "add_tank dbl_zero ext MSX oid v0 mm vmix = (OK, M)"
    by (simp add: MSXaddReservoir_def)
  from add_tank_consistent [OF inv this] AddReservoir show ?thesis by simp
qed

lemma run_netops_consistent:
  assumes "node_tank_consistent MSX" and "run_netops ext MSX cs = Some MSX'"
  shows "node_tank_consistent MSX' \<and>
     Nobjects MSX' NODE = Nobjects MSX NODE + int (length cs) \<and>
     (\<forall>k. 1 \<le> k \<longrightarrow> k \<le> Nobjects MSX NODE \<longrightarrow> Node MSX' ! nat k = Node MSX ! nat k) \<and>
     (\<forall>k<length cs. is_AddNode (cs ! k) \<longrightarrow>
        n_tank (Node MSX' ! nat (Nobjects MSX NODE + int k + 1)) = 0)"
  using assms
proof (induction cs arbitrary: MSX)
  case Nil
  then show ?case by simp
next
  case (Cons c cs)
  obtain r M where step: "apply_netop ext MSX c = (r, M)"
    by (cases "apply_netop ext MSX c")
  with Cons.prems(2) have r: "r = OK" and rest: "run_netops ext M cs = Some MSX'"
    by (simp_all split: if_splits)
  note s = apply_netop_consistent [OF Cons.prems(1) step [unfolded r]]
  from s have invM: "node_tank_consistent M" by simp
  note ih = Cons.IH [OF invM rest]
  from Cons.prems(1) have nn: "0 \<le> Nobjects MSX NODE" by (simp add: node_tank_consistent_def)
  have old: "Node MSX' ! nat k = Node MSX ! nat k" if "1 \<le> k" "k \<le> Nobjects MSX NODE" for k
    using that s ih by simp
  have new: "n_tank (Node MSX' ! nat (Nobjects MSX NODE + int k + 1)) = 0"
    if "k < length (c # cs)" "is_AddNode ((c # cs) ! k)" for k
  proof (cases k)
    case 0
    with that s have "n_tank (Node M ! nat (Nobjects MSX NODE + 1)) = 0" by simp
    moreover have "Node MSX' ! nat (Nobjects MSX NODE + 1) = Node M ! nat (Nobjects MSX NODE + 1)"
      using ih s nn by simp
    ultimately show ?thesis using 0 by simp
  next
    case (Suc j)
    with that have "j < length cs" "is_AddNode (cs ! j)" by simp_all
    with ih have "n_tank (Node MSX' ! nat (Nobjects M NODE + int j + 1)) = 0" by simp
    with s Suc show ?thesis by (simp add: algebra_simps)
  qed
  from ih s old new show ?case
    by (simp add: algebra_simps)
qed

text \<open>
  Claim C10. From a project whose node and tank arrays are consistent (a project
  without nodes and tanks is), after any sequence of calls of \<^verbatim>\<open>MSXaddNode\<close>,
  \<^verbatim>\<open>MSXaddTank\<close> and \<^verbatim>\<open>MSXaddReservoir\<close> that all return 0: for every tank index \<open>t\<close> in
  \<open>1..Nobjects[TANK]\<close>, \<^verbatim>\<open>Tank[t].node\<close> lies in \<open>1..Nobjects[NODE]\<close> and
  \<^verbatim>\<open>Node[Tank[t].node].tank\<close> is \<open>t\<close>; every call adds one node, so call number \<open>k\<close>
  (from 0) creates node \<open>Nobjects[NODE] + k + 1\<close>, and when that call is an
  \<^verbatim>\<open>MSXaddNode\<close> the field \<^verbatim>\<open>tank\<close> of its node is 0 at the end of the sequence.
\<close>

theorem node_tank_links_consistent:
  assumes "node_tank_consistent MSX" and "run_netops ext MSX cs = Some MSX'"
  shows "node_tank_consistent MSX' \<and>
     (\<forall>t \<in> {1..Nobjects MSX' TANK}.
        1 \<le> t_node (Tank MSX' ! nat t) \<and> t_node (Tank MSX' ! nat t) \<le> Nobjects MSX' NODE \<and>
        n_tank (Node MSX' ! nat (t_node (Tank MSX' ! nat t))) = t) \<and>
     Nobjects MSX' NODE = Nobjects MSX NODE + int (length cs) \<and>
     (\<forall>k<length cs. is_AddNode (cs ! k) \<longrightarrow>
        n_tank (Node MSX' ! nat (Nobjects MSX NODE + int k + 1)) = 0)"
proof -
  note r = run_netops_consistent [OF assms]
  then have "node_tank_consistent MSX'" by simp
  then have "\<forall>t \<in> {1..Nobjects MSX' TANK}.
        1 \<le> t_node (Tank MSX' ! nat t) \<and> t_node (Tank MSX' ! nat t) \<le> Nobjects MSX' NODE \<and>
        n_tank (Node MSX' ! nat (t_node (Tank MSX' ! nat t))) = t"
    by (simp add: node_tank_consistent_def)
  with r show ?thesis by simp
qed

theorem node_tank_links_consistent_witness:
  "\<exists>MSX'. run_netops ext0 project0
       [AddNode ''N1'', AddTank ''T1'' 5 0 7, AddReservoir ''R1'' 1 0 2] = Some MSX' \<and>
     node_tank_consistent MSX' \<and> Nobjects MSX' NODE = 3 \<and> n_tank (Node MSX' ! 1) = 0"
proof -
  have inv: "node_tank_consistent project0"
    by (simp add: node_tank_consistent_def project0_def)
  have "\<exists>M. run_netops ext0 project0
       [AddNode ''N1'', AddTank ''T1'' 5 0 7, AddReservoir ''R1'' 1 0 2] = Some M"
    by (simp add: MSXaddNode_def MSXaddTank_def MSXaddReservoir_def add_tank_def
        addObject_def findObject_def not_opened_def project0_def ext0_def Let_def)
  then obtain M where run: "run_netops ext0 project0
       [AddNode ''N1'', AddTank ''T1'' 5 0 7, AddReservoir ''R1'' 1 0 2] = Some M" ..
  note r = node_tank_links_consistent [OF inv run]
  from r have a: "node_tank_consistent M" "Nobjects M NODE = 3"
    by (simp_all add: project0_def)
  from r have "\<forall>k<3. is_AddNode ([AddNode ''N1'', AddTank ''T1'' 5 0 7,
       AddReservoir ''R1'' 1 0 2] ! k) \<longrightarrow>
       n_tank (Node M ! nat (Nobjects project0 NODE + int k + 1)) = 0"
    by simp
  from this [rule_format, of 0] have "n_tank (Node M ! 1) = 0"
    by (simp add: project0_def)
  with run a show ?thesis by blast
qed

section \<open>Calls that fail after they changed the project\<close>

text \<open>
  Claim C1 (the code deviates). \<^verbatim>\<open>MSXaddLink\<close> enters the name of the link in the hash
  table before it looks up the end nodes. Called on an opened project with a new
  name and an end node that does not exist, it returns \<^verbatim>\<open>ERR_NAME\<close> and leaves a project
  that differs from the one it was given: the name is registered under the index
  \<open>Nobjects[LINK] + 1\<close>, although no link was added and the count is unchanged. Every
  later \<^verbatim>\<open>MSXaddLink\<close> with that name, whatever its end nodes, then returns
  \<^verbatim>\<open>ERR_INVALID_OBJECT_PARAMS\<close>.
\<close>

theorem addLink_unknown_node_keeps_name:
  assumes "\<not> not_opened MSX" and "findObject MSX LINK oid < 1" and "checkID ext MSX oid = OK"
    and "findObject MSX NODE startNode \<le> 0 \<or> findObject MSX NODE endNode \<le> 0"
    and "0 \<le> Nobjects MSX LINK"
  shows "\<exists>M. MSXaddLink ext MSX oid startNode endNode len diam rough = (ERR_NAME, M) \<and>
           findObject M LINK oid = Nobjects MSX LINK + 1 \<and>
           M \<noteq> MSX \<and>
           fst (MSXaddLink ext M oid startNode' endNode' len diam rough) = ERR_INVALID_OBJECT_PARAMS"
proof -
  define M where "M = MSX\<lparr>Htable := (Htable MSX)(LINK := (Htable MSX LINK)(oid \<mapsto> Nobjects MSX LINK + 1))\<rparr>"
  have add: "addObject MSX LINK oid (Nobjects MSX LINK + 1) = (1, M)"
    using assms(2) by (simp add: addObject_def M_def)
  have nodes: "findObject M NODE s = findObject MSX NODE s" for s
    by (simp add: findObject_def M_def)
  have found: "findObject M LINK oid = Nobjects MSX LINK + 1"
    by (simp add: findObject_def M_def)
  have res: "MSXaddLink ext MSX oid startNode endNode len diam rough = (ERR_NAME, M)"
    using assms(1-4) by (auto simp: MSXaddLink_def add nodes Let_def)
  have neq: "M \<noteq> MSX"
    using found assms(2,5) by auto
  have opened: "\<not> not_opened M"
    using assms(1) by (simp add: not_opened_def M_def)
  have again: "fst (MSXaddLink ext M oid startNode' endNode' len diam rough) = ERR_INVALID_OBJECT_PARAMS"
    using opened found assms(5) by (simp add: MSXaddLink_def)
  show ?thesis
    using res found neq again by blast
qed

theorem addLink_unknown_node_keeps_name_witness:
  "\<exists>M. MSXaddLink ext0 project0 ''L1'' ''A'' ''B'' 0 0 0 = (ERR_NAME, M) \<and>
       findObject M LINK ''L1'' = 1 \<and> M \<noteq> project0 \<and>
       fst (MSXaddLink ext0 M ''L1'' ''A'' ''B'' 0 0 0) = ERR_INVALID_OBJECT_PARAMS"
proof -
  have "\<not> not_opened project0" "findObject project0 LINK ''L1'' < 1"
    "checkID ext0 project0 ''L1'' = OK"
    "findObject project0 NODE ''A'' \<le> 0 \<or> findObject project0 NODE ''B'' \<le> 0"
    "0 \<le> Nobjects project0 LINK"
    by (simp_all add: not_opened_def project0_def findObject_def ext0_def)
  from addLink_unknown_node_keeps_name [OF this, of 0 0 0 "''A''" "''B''"]
  show ?thesis by (simp add: project0_def)
qed

text \<open>
  Claim C4 (the code deviates). For the option \<^verbatim>\<open>COMPILER_OPTION\<close> and a value that
  \<^verbatim>\<open>MSXutils_findmatch\<close> finds in the table of compiler keywords, \<^verbatim>\<open>MSXaddOption\<close> on an
  opened project stores the keyword's position in \<^verbatim>\<open>Compiler\<close> and returns
  \<^verbatim>\<open>ERR_INVALID_OBJECT_TYPE\<close>, not 0.
\<close>

theorem addOption_compiler_falls_through:
  assumes "\<not> not_opened MSX" and "0 \<le> MSXutils_findmatch ext v (CompilerWords ext)"
  shows "MSXaddOption ext MSX COMPILER_OPTION v =
           (ERR_INVALID_OBJECT_TYPE,
            MSX\<lparr>Compiler := MSXutils_findmatch ext v (CompilerWords ext)\<rparr>)"
  using assms by (simp add: MSXaddOption_def Let_def)

theorem addOption_compiler_falls_through_witness:
  "MSXaddOption ext0 project0 COMPILER_OPTION ''VC'' =
     (ERR_INVALID_OBJECT_TYPE, project0\<lparr>Compiler := 1\<rparr>)"
proof -
  have "\<not> not_opened project0" "0 \<le> MSXutils_findmatch ext0 ''VC'' (CompilerWords ext0)"
    by (simp_all add: not_opened_def project0_def ext0_def)
  from addOption_compiler_falls_through [OF this]
  show ?thesis by (simp add: ext0_def)
qed

text \<open>The other keyword options and \<^verbatim>\<open>TIMESTEP\<close> behave as the claim says: 0 and the
  field updated for a valid value, an error and no change otherwise.\<close>

lemma addOption_other_options:
  assumes "\<not> not_opened MSX"
  shows "MSXaddOption ext MSX AREA_UNITS_OPTION v =
           (let k = MSXutils_findmatch ext v (AreaUnitsWords ext)
            in if k < 0 then (ERR_KEYWORD, MSX) else (OK, MSX\<lparr>AreaUnits := k\<rparr>))"
    and "MSXaddOption ext MSX RATE_UNITS_OPTION v =
           (let k = MSXutils_findmatch ext v (TimeUnitsWords ext)
            in if k < 0 then (ERR_KEYWORD, MSX) else (OK, MSX\<lparr>RateUnits := k\<rparr>))"
    and "MSXaddOption ext MSX SOLVER_OPTION v =
           (let k = MSXutils_findmatch ext v (SolverTypeWords ext)
            in if k < 0 then (ERR_KEYWORD, MSX) else (OK, MSX\<lparr>Solver := k\<rparr>))"
    and "MSXaddOption ext MSX COUPLING_OPTION v =
           (let k = MSXutils_findmatch ext v (CouplingWords ext)
            in if k < 0 then (ERR_KEYWORD, MSX) else (OK, MSX\<lparr>Coupling := k\<rparr>))"
    and "MSXaddOption ext MSX TIMESTEP_OPTION v =
           (let k = atoi ext v
            in if k \<le> 0 then (ERR_NUMBER, MSX) else (OK, MSX\<lparr>Qstep := k\<rparr>))"
  using assms by (simp_all add: MSXaddOption_def)

section \<open>Hydraulic injection\<close>

lemma fold_opt_append:
  "fold_opt f (xs @ ys) a = (case fold_opt f xs a of None \<Rightarrow> None | Some b \<Rightarrow> fold_opt f ys b)"
  by (induction xs arbitrary: a) (auto split: option.splits)

lemma shifted_in_step:
  assumes "n < length src" "Suc n < length dst"
  shows "(shifted_in src n dst)[Suc n := src ! n] = shifted_in src (Suc n) dst"
proof (rule nth_equalityI)
  show "length ((shifted_in src n dst)[Suc n := src ! n]) = length (shifted_in src (Suc n) dst)"
    using assms by (simp add: shifted_in_def)
next
  fix i assume "i < length ((shifted_in src n dst)[Suc n := src ! n])"
  with assms have i: "i < length dst" by (simp add: shifted_in_def)
  show "(shifted_in src n dst)[Suc n := src ! n] ! i = shifted_in src (Suc n) dst ! i"
  proof (cases "i = Suc n")
    case True
    with assms show ?thesis by (simp add: shifted_in_def nth_append)
  next
    case False
    with assms i show ?thesis
      by (cases i) (auto simp: shifted_in_def nth_append Suc_diff_le)
  qed
qed

lemma fold_copy_shifted:
  "n \<le> length src \<Longrightarrow> n < length dst \<Longrightarrow>
   fold_opt (copy_shifted src) [0..<n] dst = Some (shifted_in src n dst)"
proof (induction n)
  case 0
  then show ?case by (cases dst) (simp_all add: shifted_in_def)
next
  case (Suc n)
  then have ih: "fold_opt (copy_shifted src) [0..<n] dst = Some (shifted_in src n dst)" by simp
  have len: "length (shifted_in src n dst) = length dst"
    using Suc.prems by (simp add: shifted_in_def)
  show ?case
    using Suc.prems
    by (simp add: fold_opt_append ih) (simp add: copy_shifted_def len shifted_in_step)
qed

lemma fold_copy_shifted_pair:
  "n \<le> length s1 \<Longrightarrow> n \<le> length s2 \<Longrightarrow> n < length d \<Longrightarrow> n < length h \<Longrightarrow>
   fold_opt (\<lambda>i (d, h). do { d' \<leftarrow> copy_shifted s1 i d; h' \<leftarrow> copy_shifted s2 i h; Some (d', h') })
     [0..<n] (d, h) = Some (shifted_in s1 n d, shifted_in s2 n h)"
proof (induction n)
  case 0
  then show ?case by (cases d; cases h) (simp_all add: shifted_in_def)
next
  case (Suc n)
  then have ih: "fold_opt (\<lambda>i (d, h). do { d' \<leftarrow> copy_shifted s1 i d; h' \<leftarrow> copy_shifted s2 i h; Some (d', h') })
     [0..<n] (d, h) = Some (shifted_in s1 n d, shifted_in s2 n h)" by simp
  have len: "length (shifted_in s1 n d) = length d" "length (shifted_in s2 n h) = length h"
    using Suc.prems by (simp_all add: shifted_in_def)
  show ?case
    using Suc.prems
    by (simp add: fold_opt_append ih) (simp add: copy_shifted_def len shifted_in_step)
qed

lemma shifted_in_nth:
  "i < n \<Longrightarrow> n \<le> length src \<Longrightarrow> n < length dst \<Longrightarrow> shifted_in src n dst ! Suc i = src ! i"
  by (simp add: shifted_in_def nth_append)

lemma shifted_in_other:
  "n \<le> length src \<Longrightarrow> n < length dst \<Longrightarrow> i = 0 \<or> n < i \<Longrightarrow> i < length dst \<Longrightarrow> shifted_in src n dst ! i = dst ! i"
  by (cases i) (auto simp: shifted_in_def nth_append)

text \<open>
  Claim C6. On a project that passes the opened-guard, with \<open>N\<close> nodes and \<open>L\<close> links,
  whose arrays \<^verbatim>\<open>D\<close>, \<^verbatim>\<open>H\<close> and \<^verbatim>\<open>Q\<close> have the slots \<open>0..N\<close> and \<open>0..L\<close> allocated (as
  \<^verbatim>\<open>createObjects\<close> of msxproj.c allocates them), and
  for argument arrays with at least \<open>N\<close>, \<open>N\<close> and \<open>L\<close> elements: \<^verbatim>\<open>MSXsetHydraulics\<close> returns
  0; the project it leaves differs from the given one in \<^verbatim>\<open>D\<close>, \<^verbatim>\<open>H\<close> and \<^verbatim>\<open>Q\<close> only;
  \<^verbatim>\<open>D[i+1]\<close> is \<^verbatim>\<open>demands[i]\<close> and \<^verbatim>\<open>H[i+1]\<close> is \<^verbatim>\<open>heads[i]\<close> for every \<open>i < N\<close>, \<^verbatim>\<open>Q[j+1]\<close> is
  \<^verbatim>\<open>flows[j]\<close> for every \<open>j < L\<close>; slot 0 and the slots above \<open>N\<close> and \<open>L\<close> keep their
  contents.
\<close>

theorem setHydraulics_copies_arrays:
  assumes opened: "\<not> not_opened MSX"
    and N: "N = nat (Nobjects MSX NODE)" and L: "L = nat (Nobjects MSX LINK)"
    and alloc: "N < length (D MSX)" "N < length (H MSX)" "L < length (Q MSX)"
    and args: "N \<le> length demands" "N \<le> length heads" "L \<le> length flows"
  shows "\<exists>D' H' Q'.
     MSXsetHydraulics MSX demands heads flows = Some (OK, MSX\<lparr>D := D', H := H', Q := Q'\<rparr>) \<and>
     length D' = length (D MSX) \<and> length H' = length (H MSX) \<and> length Q' = length (Q MSX) \<and>
     (\<forall>i<N. D' ! (i + 1) = demands ! i \<and> H' ! (i + 1) = heads ! i) \<and>
     (\<forall>j<L. Q' ! (j + 1) = flows ! j) \<and>
     (\<forall>i<length (D MSX). i = 0 \<or> N < i \<longrightarrow> D' ! i = D MSX ! i) \<and>
     (\<forall>i<length (H MSX). i = 0 \<or> N < i \<longrightarrow> H' ! i = H MSX ! i) \<and>
     (\<forall>j<length (Q MSX). j = 0 \<or> L < j \<longrightarrow> Q' ! j = Q MSX ! j)"
proof -
  have res: "MSXsetHydraulics MSX demands heads flows =
      Some (OK, MSX\<lparr>D := shifted_in demands N (D MSX), H := shifted_in heads N (H MSX),
                    Q := shifted_in flows L (Q MSX)\<rparr>)"
    using opened alloc args
    by (simp add: MSXsetHydraulics_def Let_def N [symmetric] L [symmetric]
        fold_copy_shifted_pair fold_copy_shifted)
  have lens: "length (shifted_in demands N (D MSX)) = length (D MSX)"
    "length (shifted_in heads N (H MSX)) = length (H MSX)"
    "length (shifted_in flows L (Q MSX)) = length (Q MSX)"
    using alloc args by (simp_all add: shifted_in_def)
  show ?thesis
    apply (rule exI [of _ "shifted_in demands N (D MSX)"])
    apply (rule exI [of _ "shifted_in heads N (H MSX)"])
    apply (rule exI [of _ "shifted_in flows L (Q MSX)"])
    using res lens alloc args
    apply (auto simp: shifted_in_nth shifted_in_other)
    done
qed

theorem setHydraulics_copies_arrays_witness:
  "\<exists>D' H' Q'. MSXsetHydraulics project_hyd [1, 2] [3, 4] [5] =
       Some (OK, project_hyd\<lparr>D := D', H := H', Q := Q'\<rparr>) \<and>
     D' ! 1 = 1 \<and> D' ! 2 = 2 \<and> H' ! 1 = 3 \<and> H' ! 2 = 4 \<and> Q' ! 1 = 5 \<and> D' ! 0 = 0"
proof -
  have "\<not> not_opened project_hyd" "2 = nat (Nobjects project_hyd NODE)"
    "1 = nat (Nobjects project_hyd LINK)"
    "2 < length (D project_hyd)" "2 < length (H project_hyd)" "1 < length (Q project_hyd)"
    "2 \<le> length [1, 2 :: REAL4]" "2 \<le> length [3, 4 :: REAL4]" "1 \<le> length [5 :: REAL4]"
    by (simp_all add: project_hyd_def project0_def not_opened_def)
  from setHydraulics_copies_arrays [OF this]
  obtain D' H' Q' where res: "MSXsetHydraulics project_hyd [1, 2] [3, 4] [5] =
       Some (OK, project_hyd\<lparr>D := D', H := H', Q := Q'\<rparr>)"
    and d: "\<forall>i<2. D' ! (i + 1) = [1, 2] ! i \<and> H' ! (i + 1) = [3, 4] ! i"
    and q: "\<forall>j<1. Q' ! (j + 1) = [5] ! j"
    and d0: "\<forall>i<length (D project_hyd). i = 0 \<or> 2 < i \<longrightarrow> D' ! i = D project_hyd ! i"
    by blast
  from d [rule_format, of 0] d [rule_format, of 1] q [rule_format, of 0] d0 [rule_format, of 0]
  have "D' ! 1 = 1 \<and> D' ! 2 = 2 \<and> H' ! 1 = 3 \<and> H' ! 2 = 4 \<and> Q' ! 1 = 5 \<and> D' ! 0 = 0"
    by (simp add: project_hyd_def project0_def numeral_2_eq_2)
  with res show ?thesis by blast
qed

section \<open>Index checks of the getters\<close>

lemma aget_slot0: "1 \<le> i \<Longrightarrow> aget (xs[0 := z]) i = aget xs i"
  by (auto simp: aget_def in_array_def)

lemma returns_Some: "returns r (Some (r', v)) = (r' = r)"
  by (auto simp: returns_def)

lemma returns_None: "\<not> returns r None"
  by (simp add: returns_def)

lemma returns_map_option: "returns r (map_option (\<lambda>x. (OK, f x)) y) = (r = OK \<and> y \<noteq> None)"
  by (cases y) (auto simp: returns_def)

lemma getIDlen_index:
  assumes "ProjectOpened MSX" and "type \<in> {SPECIES, CONSTANT, PARAMETER, PATTERN}"
  shows "returns ERR_INVALID_OBJECT_INDEX (MSXgetIDlen MSX type index) \<longleftrightarrow>
           index < 1 \<or> Nobjects MSX type < index"
  using assms by (auto simp: MSXgetIDlen_def returns_Some returns_map_option)

lemma getID_index:
  assumes "ProjectOpened MSX" and "type \<in> {SPECIES, CONSTANT, PARAMETER, PATTERN}"
  shows "returns ERR_INVALID_OBJECT_INDEX (MSXgetID MSX type index len) \<longleftrightarrow>
           index < 1 \<or> Nobjects MSX type < index"
  using assms by (auto simp: MSXgetID_def returns_Some returns_None returns_map_option)

lemma getconstant_index:
  assumes "ProjectOpened MSX"
  shows "returns ERR_INVALID_OBJECT_INDEX (MSXgetconstant MSX index) \<longleftrightarrow>
           index < 1 \<or> Nobjects MSX CONSTANT < index"
  using assms by (auto simp: MSXgetconstant_def returns_Some returns_map_option)

lemma getpatternlen_index:
  assumes "ProjectOpened MSX"
  shows "returns ERR_INVALID_OBJECT_INDEX (MSXgetpatternlen MSX index) \<longleftrightarrow>
           index < 1 \<or> Nobjects MSX PATTERN < index"
  using assms
  by (auto simp: MSXgetpatternlen_def returns_Some returns_None split: option.splits)

lemma getparameter_index:
  assumes "ProjectOpened MSX" and "type \<in> {NODE, LINK}"
  shows "returns ERR_INVALID_OBJECT_INDEX (MSXgetparameter MSX type index param) \<longleftrightarrow>
           (param < 1 \<or> Nobjects MSX PARAMETER < param) \<or>
           (index < 1 \<or> Nobjects MSX type < index)"
  using assms
  by (auto simp: MSXgetparameter_def returns_def split: Option.bind_splits)

lemma getinitqual_index:
  assumes "ProjectOpened MSX" and "type \<in> {NODE, LINK}"
  shows "returns ERR_INVALID_OBJECT_INDEX (MSXgetinitqual MSX type index species) \<longleftrightarrow>
           (species < 1 \<or> Nobjects MSX SPECIES < species) \<or>
           (index < 1 \<or> Nobjects MSX type < index)"
  using assms
  by (auto simp: MSXgetinitqual_def returns_def split: Option.bind_splits)

lemma getQualityByIndex_index:
  assumes "ProjectOpened MSX" and "type \<in> {NODE, LINK}"
  shows "returns ERR_INVALID_OBJECT_INDEX (MSXgetQualityByIndex ext MSX type index species) \<longleftrightarrow>
           (species < 1 \<or> Nobjects MSX SPECIES < species) \<or>
           (index < 1 \<or> Nobjects MSX type < index)"
  using assms
  by (auto simp: MSXgetQualityByIndex_def returns_Some returns_map_option)

lemma slot0_fields:
  "ProjectOpened (with_slot0 MSX n l t s p c pt) = ProjectOpened MSX"
  "Nobjects (with_slot0 MSX n l t s p c pt) = Nobjects MSX"
  "Node (with_slot0 MSX n l t s p c pt) = (Node MSX)[0 := n]"
  "Link (with_slot0 MSX n l t s p c pt) = (Link MSX)[0 := l]"
  "Tank (with_slot0 MSX n l t s p c pt) = (Tank MSX)[0 := t]"
  "Species (with_slot0 MSX n l t s p c pt) = (Species MSX)[0 := s]"
  "Param (with_slot0 MSX n l t s p c pt) = (Param MSX)[0 := p]"
  "Const (with_slot0 MSX n l t s p c pt) = (Const MSX)[0 := c]"
  "Pattern (with_slot0 MSX n l t s p c pt) = (Pattern MSX)[0 := pt]"
  by (simp_all add: with_slot0_def)

lemma getIDlen_slot0:
  "MSXgetIDlen (with_slot0 MSX n l t s p c pt) type index = MSXgetIDlen MSX type index"
  by (simp add: MSXgetIDlen_def slot0_fields aget_slot0)

lemma getID_slot0:
  "MSXgetID (with_slot0 MSX n l t s p c pt) type index len = MSXgetID MSX type index len"
  by (simp add: MSXgetID_def slot0_fields aget_slot0)

lemma getconstant_slot0:
  "MSXgetconstant (with_slot0 MSX n l t s p c pt) index = MSXgetconstant MSX index"
  by (simp add: MSXgetconstant_def slot0_fields aget_slot0)

lemma getpatternlen_slot0:
  "MSXgetpatternlen (with_slot0 MSX n l t s p c pt) index = MSXgetpatternlen MSX index"
  by (simp add: MSXgetpatternlen_def slot0_fields aget_slot0)

lemma bind_cong_Some:
  "(\<And>y. x = Some y \<Longrightarrow> f y = g y) \<Longrightarrow> Option.bind x f = Option.bind x g"
  by (cases x) simp_all

lemma getparameter_slot0:
  "MSXgetparameter (with_slot0 MSX n l t s p c pt) type index param =
   MSXgetparameter MSX type index param"
  by (auto simp: MSXgetparameter_def slot0_fields aget_slot0 intro!: bind_cong_Some)

lemma getinitqual_slot0:
  "MSXgetinitqual (with_slot0 MSX n l t s p c pt) type index species =
   MSXgetinitqual MSX type index species"
  by (simp add: MSXgetinitqual_def slot0_fields aget_slot0)

lemma getQualityByIndex_engine_args:
  assumes "\<forall>i m. 1 \<le> i \<longrightarrow> 1 \<le> m \<longrightarrow>
             MSXqual_getNodeQual ext' MSX i m = MSXqual_getNodeQual ext MSX i m \<and>
             MSXqual_getLinkQual ext' MSX i m = MSXqual_getLinkQual ext MSX i m"
  shows "MSXgetQualityByIndex ext' MSX type index species =
         MSXgetQualityByIndex ext MSX type index species"
  using assms by (simp add: MSXgetQualityByIndex_def)

text \<open>
  Claim C5. On an opened project, each getter that takes a 1-based object index
  (\<^verbatim>\<open>MSXgetIDlen\<close>, \<^verbatim>\<open>MSXgetID\<close>, \<^verbatim>\<open>MSXgetconstant\<close>, \<^verbatim>\<open>MSXgetpatternlen\<close>,
  \<^verbatim>\<open>MSXgetparameter\<close>, \<^verbatim>\<open>MSXgetinitqual\<close>, \<^verbatim>\<open>MSXgetQualityByIndex\<close>), called with an object
  type that it supports, returns \<^verbatim>\<open>ERR_INVALID_OBJECT_INDEX\<close> if and only if an index
  argument lies outside \<open>1..Nobjects[type]\<close> of its type (for the last three the
  arguments are the node or link index and the parameter or species index). So index 0
  is always rejected. And slot 0 of the object arrays is not read: with any other
  contents in slot 0 of the arrays of nodes, links, tanks, species, parameters,
  constants and patterns, each getter that reads the arrays gives the same result.
  \<^verbatim>\<open>MSXgetQualityByIndex\<close> reads no array itself: it hands its indices to the quality
  engine, and never an index 0, since its result is the same with any engine that
  agrees on the indices from 1 on.
\<close>

theorem getters_reject_exactly_bad_indices:
  assumes opened: "ProjectOpened MSX"
  shows
    "(ty \<in> {SPECIES, CONSTANT, PARAMETER, PATTERN} \<longrightarrow>
        (returns ERR_INVALID_OBJECT_INDEX (MSXgetIDlen MSX ty index) \<longleftrightarrow>
           index < 1 \<or> Nobjects MSX ty < index) \<and>
        (returns ERR_INVALID_OBJECT_INDEX (MSXgetID MSX ty index len) \<longleftrightarrow>
           index < 1 \<or> Nobjects MSX ty < index)) \<and>
     (returns ERR_INVALID_OBJECT_INDEX (MSXgetconstant MSX index) \<longleftrightarrow>
        index < 1 \<or> Nobjects MSX CONSTANT < index) \<and>
     (returns ERR_INVALID_OBJECT_INDEX (MSXgetpatternlen MSX index) \<longleftrightarrow>
        index < 1 \<or> Nobjects MSX PATTERN < index) \<and>
     (tn \<in> {NODE, LINK} \<longrightarrow>
        (returns ERR_INVALID_OBJECT_INDEX (MSXgetparameter MSX tn index param) \<longleftrightarrow>
           (param < 1 \<or> Nobjects MSX PARAMETER < param) \<or>
           (index < 1 \<or> Nobjects MSX tn < index)) \<and>
        (returns ERR_INVALID_OBJECT_INDEX (MSXgetinitqual MSX tn index species) \<longleftrightarrow>
           (species < 1 \<or> Nobjects MSX SPECIES < species) \<or>
           (index < 1 \<or> Nobjects MSX tn < index)) \<and>
        (returns ERR_INVALID_OBJECT_INDEX (MSXgetQualityByIndex ext MSX tn index species) \<longleftrightarrow>
           (species < 1 \<or> Nobjects MSX SPECIES < species) \<or>
           (index < 1 \<or> Nobjects MSX tn < index))) \<and>
     MSXgetIDlen (with_slot0 MSX n l t s p c pt) ty index = MSXgetIDlen MSX ty index \<and>
     MSXgetID (with_slot0 MSX n l t s p c pt) ty index len = MSXgetID MSX ty index len \<and>
     MSXgetconstant (with_slot0 MSX n l t s p c pt) index = MSXgetconstant MSX index \<and>
     MSXgetpatternlen (with_slot0 MSX n l t s p c pt) index = MSXgetpatternlen MSX index \<and>
     MSXgetparameter (with_slot0 MSX n l t s p c pt) tn index param =
       MSXgetparameter MSX tn index param \<and>
     MSXgetinitqual (with_slot0 MSX n l t s p c pt) tn index species =
       MSXgetinitqual MSX tn index species \<and>
     ((\<forall>i m. 1 \<le> i \<longrightarrow> 1 \<le> m \<longrightarrow>
          MSXqual_getNodeQual ext' MSX i m = MSXqual_getNodeQual ext MSX i m \<and>
          MSXqual_getLinkQual ext' MSX i m = MSXqual_getLinkQual ext MSX i m) \<longrightarrow>
      MSXgetQualityByIndex ext' MSX tn index species =
        MSXgetQualityByIndex ext MSX tn index species)"
proof -
  have a: "ty \<in> {SPECIES, CONSTANT, PARAMETER, PATTERN} \<longrightarrow>
        (returns ERR_INVALID_OBJECT_INDEX (MSXgetIDlen MSX ty index) \<longleftrightarrow>
           index < 1 \<or> Nobjects MSX ty < index) \<and>
        (returns ERR_INVALID_OBJECT_INDEX (MSXgetID MSX ty index len) \<longleftrightarrow>
           index < 1 \<or> Nobjects MSX ty < index)"
  proof (intro impI conjI)
    assume ty: "ty \<in> {SPECIES, CONSTANT, PARAMETER, PATTERN}"
    show "returns ERR_INVALID_OBJECT_INDEX (MSXgetIDlen MSX ty index) \<longleftrightarrow>
           index < 1 \<or> Nobjects MSX ty < index"
      by (rule getIDlen_index [OF opened ty])
    show "returns ERR_INVALID_OBJECT_INDEX (MSXgetID MSX ty index len) \<longleftrightarrow>
           index < 1 \<or> Nobjects MSX ty < index"
      by (rule getID_index [OF opened ty])
  qed
  have b: "tn \<in> {NODE, LINK} \<longrightarrow>
        (returns ERR_INVALID_OBJECT_INDEX (MSXgetparameter MSX tn index param) \<longleftrightarrow>
           (param < 1 \<or> Nobjects MSX PARAMETER < param) \<or>
           (index < 1 \<or> Nobjects MSX tn < index)) \<and>
        (returns ERR_INVALID_OBJECT_INDEX (MSXgetinitqual MSX tn index species) \<longleftrightarrow>
           (species < 1 \<or> Nobjects MSX SPECIES < species) \<or>
           (index < 1 \<or> Nobjects MSX tn < index)) \<and>
        (returns ERR_INVALID_OBJECT_INDEX (MSXgetQualityByIndex ext MSX tn index species) \<longleftrightarrow>
           (species < 1 \<or> Nobjects MSX SPECIES < species) \<or>
           (index < 1 \<or> Nobjects MSX tn < index))"
  proof (intro impI conjI)
    assume tn: "tn \<in> {NODE, LINK}"
    show "returns ERR_INVALID_OBJECT_INDEX (MSXgetparameter MSX tn index param) \<longleftrightarrow>
           (param < 1 \<or> Nobjects MSX PARAMETER < param) \<or>
           (index < 1 \<or> Nobjects MSX tn < index)"
      by (rule getparameter_index [OF opened tn])
    show "returns ERR_INVALID_OBJECT_INDEX (MSXgetinitqual MSX tn index species) \<longleftrightarrow>
           (species < 1 \<or> Nobjects MSX SPECIES < species) \<or>
           (index < 1 \<or> Nobjects MSX tn < index)"
      by (rule getinitqual_index [OF opened tn])
    show "returns ERR_INVALID_OBJECT_INDEX (MSXgetQualityByIndex ext MSX tn index species) \<longleftrightarrow>
           (species < 1 \<or> Nobjects MSX SPECIES < species) \<or>
           (index < 1 \<or> Nobjects MSX tn < index)"
      by (rule getQualityByIndex_index [OF opened tn])
  qed
  have c: "(\<forall>i m. 1 \<le> i \<longrightarrow> 1 \<le> m \<longrightarrow>
          MSXqual_getNodeQual ext' MSX i m = MSXqual_getNodeQual ext MSX i m \<and>
          MSXqual_getLinkQual ext' MSX i m = MSXqual_getLinkQual ext MSX i m) \<longrightarrow>
      MSXgetQualityByIndex ext' MSX tn index species =
        MSXgetQualityByIndex ext MSX tn index species"
    by (rule impI) (rule getQualityByIndex_engine_args)
  show ?thesis
    by (intro conjI a b c getconstant_index [OF opened] getpatternlen_index [OF opened]
        getIDlen_slot0 getID_slot0 getconstant_slot0 getpatternlen_slot0
        getparameter_slot0 getinitqual_slot0)
qed


theorem getters_reject_exactly_bad_indices_witness:
  "returns ERR_INVALID_OBJECT_INDEX (MSXgetpatternlen project_1pat 0) \<and>
   \<not> returns ERR_INVALID_OBJECT_INDEX (MSXgetpatternlen project_1pat 1) \<and>
   returns ERR_INVALID_OBJECT_INDEX (MSXgetpatternlen project_1pat 2)"
proof -
  have opened: "ProjectOpened project_1pat"
    by (simp add: project_1pat_def project0_def)
  have n: "Nobjects project_1pat PATTERN = 1"
    by (simp add: project_1pat_def project0_def)
  note len = getters_reject_exactly_bad_indices
    [OF opened, THEN conjunct2, THEN conjunct2, THEN conjunct1]
  from len [of 0] len [of 1] len [of 2] show ?thesis
    by (simp add: n)
qed

section \<open>Release of the expression trees\<close>

lemma count_list_concat:
  "count_list (concat xss) p = sum_list (map (\<lambda>xs. count_list xs p) xss)"
  by (induction xss) simp_all

lemma sum_list_single:
  fixes g :: "'a \<Rightarrow> nat"
  shows "a < length xs \<Longrightarrow> g (xs ! a) = 1 \<Longrightarrow> (\<forall>b<length xs. b \<noteq> a \<longrightarrow> g (xs ! b) = 0) \<Longrightarrow>
         sum_list (map g xs) = 1"
proof (induction xs arbitrary: a)
  case Nil
  then show ?case by simp
next
  case (Cons x xs)
  show ?case
  proof (cases a)
    case 0
    have "g y = 0" if "y \<in> set xs" for y
    proof -
      from that obtain b where "b < length xs" "xs ! b = y" by (auto simp: in_set_conv_nth)
      with Cons.prems(3) [rule_format, of "Suc b"] 0 show ?thesis by simp
    qed
    then have "sum_list (map g xs) = 0" by simp
    with Cons.prems(2) 0 show ?thesis by simp
  next
    case (Suc a')
    have x0: "g x = 0" using Cons.prems(3) [rule_format, of 0] Suc by simp
    have "sum_list (map g xs) = 1"
    proof (rule Cons.IH [of a'])
      show "a' < length xs" using Cons.prems(1) Suc by simp
      show "g (xs ! a') = 1" using Cons.prems(2) Suc by simp
      show "\<forall>b<length xs. b \<noteq> a' \<longrightarrow> g (xs ! b) = 0"
        using Cons.prems(3) Suc by (auto dest: spec [of _ "Suc b" for b])
    qed
    with x0 show ?thesis by simp
  qed
qed

lemma count_species_deletes_owned:
  "p \<in> owned_exprs S \<Longrightarrow> count_list (species_deletes S) p = 1"
  by (auto simp: owned_exprs_def species_deletes_def)

lemma count_species_deletes_other:
  "p \<noteq> 0 \<Longrightarrow> p \<notin> owned_exprs S \<Longrightarrow> count_list (species_deletes S) p = 0"
  by (auto simp: owned_exprs_def species_deletes_def)

lemma slots_take: "allocated xs n \<Longrightarrow> slots xs n = Some (take (nat n) (drop 1 xs))"
  by (auto simp: allocated_def slots_def in_array_def)

lemma allocated_nth:
  assumes "allocated xs n"
  shows "length (take (nat n) (drop 1 xs)) = nat n"
    and "a < nat n \<Longrightarrow> take (nat n) (drop 1 xs) ! a = xs ! Suc a"
  using assms by (auto simp: allocated_def in_array_def)

text \<open>
  Claim C8. For a project whose arrays are allocated for their counts and whose
  expression trees are owned exclusively (different species share no tree, no term
  has a tree of a species; the tank expression of a species may be its pipe
  expression), \<^verbatim>\<open>deleteObjects\<close> runs without a fault and calls \<^verbatim>\<open>mathexpr_delete\<close>, for
  each species \<open>1..Nobjects[SPECIES]\<close> in turn, on the tank expression only when it is
  not the pipe expression and then on the pipe expression, and after that on the
  expression of each term. Every tree that a species owns is the argument of exactly
  one of these calls: none is released twice and none is left out.
\<close>

theorem deleteObjects_releases_each_expr_once:
  assumes alloc: "allocated (Node MSX) (Nobjects MSX NODE)"
      "allocated (Link MSX) (Nobjects MSX LINK)"
      "allocated (Tank MSX) (Nobjects MSX TANK)"
      "allocated (Pattern MSX) (Nobjects MSX PATTERN)"
      "allocated (Species MSX) (Nobjects MSX SPECIES)"
      "allocated (Term MSX) (Nobjects MSX TERM_OBJ)"
    and excl: "exprs_exclusive MSX"
  shows "\<exists>M calls. deleteObjects MSX = Some (M, calls) \<and>
     calls = concat (map species_deletes (take (nat (Nobjects MSX SPECIES)) (drop 1 (Species MSX))))
             @ map tm_expr (take (nat (Nobjects MSX TERM_OBJ)) (drop 1 (Term MSX))) \<and>
     (\<forall>i \<in> {1..Nobjects MSX SPECIES}.
        species_deletes (Species MSX ! nat i) =
          (if sp_tankExpr (Species MSX ! nat i) = sp_pipeExpr (Species MSX ! nat i)
           then [sp_pipeExpr (Species MSX ! nat i)]
           else [sp_tankExpr (Species MSX ! nat i), sp_pipeExpr (Species MSX ! nat i)])) \<and>
     (\<forall>i \<in> {1..Nobjects MSX SPECIES}. \<forall>p \<in> owned_exprs (Species MSX ! nat i).
        count_list calls p = 1)"
proof -
  define N where "N = Nobjects MSX SPECIES"
  define NT where "NT = Nobjects MSX TERM_OBJ"
  define SS where "SS = take (nat N) (drop 1 (Species MSX))"
  define TT where "TT = take (nat NT) (drop 1 (Term MSX))"
  define calls where "calls = concat (map species_deletes SS) @ map tm_expr TT"
  have lenS: "length SS = nat N" and nthS: "\<And>a. a < nat N \<Longrightarrow> SS ! a = Species MSX ! Suc a"
    using allocated_nth [OF alloc(5)] by (simp_all add: SS_def N_def)
  have lenT: "length TT = nat NT" and nthT: "\<And>a. a < nat NT \<Longrightarrow> TT ! a = Term MSX ! Suc a"
    using allocated_nth [OF alloc(6)] by (simp_all add: TT_def NT_def)
  have res: "\<exists>M. deleteObjects MSX = Some (M, calls)"
    by (simp add: deleteObjects_def slots_take alloc calls_def SS_def TT_def N_def NT_def)
  have once: "count_list calls p = 1"
    if i: "i \<in> {1..N}" and p: "p \<in> owned_exprs (Species MSX ! nat i)" for i p
  proof -
    define a where "a = nat i - 1"
    from i have a: "a < nat N" "Suc a = nat i" by (auto simp: a_def)
    from p have p0: "p \<noteq> 0" by (simp add: owned_exprs_def)
    have here: "count_list (species_deletes (SS ! a)) p = 1"
      using p a by (simp add: nthS count_species_deletes_owned)
    have others: "count_list (species_deletes (SS ! b)) p = 0"
      if b: "b < length SS" "b \<noteq> a" for b
    proof -
      from b a lenS have j: "int (Suc b) \<in> {1..N}" "int (Suc b) \<noteq> i" by auto
      with excl i have "owned_exprs (Species MSX ! nat i) \<inter>
          owned_exprs (Species MSX ! nat (int (Suc b))) = {}"
        unfolding exprs_exclusive_def N_def by blast
      moreover have "nat (int (Suc b)) = Suc b" by simp
      ultimately have "p \<notin> owned_exprs (Species MSX ! Suc b)" using p by auto
      with p0 b lenS show ?thesis
        by (simp add: nthS count_species_deletes_other)
    qed
    have species: "count_list (concat (map species_deletes SS)) p = 1"
      unfolding count_list_concat
      using sum_list_single [of a SS "\<lambda>S. count_list (species_deletes S) p"] a lenS here others
      by (simp add: comp_def)
    have "p \<notin> set (map tm_expr TT)"
    proof
      assume "p \<in> set (map tm_expr TT)"
      then obtain k where k: "k < length TT" "tm_expr (TT ! k) = p"
        by (auto simp: in_set_conv_nth)
      with lenT have "int (Suc k) \<in> {1..NT}" by auto
      with excl i have "tm_expr (Term MSX ! nat (int (Suc k))) \<notin> owned_exprs (Species MSX ! nat i)"
        unfolding exprs_exclusive_def N_def NT_def by blast
      moreover have "nat (int (Suc k)) = Suc k" by simp
      ultimately show False using k lenT p by (simp add: nthT)
    qed
    then have "count_list (map tm_expr TT) p = 0"
      by (simp add: count_list_0_iff)
    with species show ?thesis by (simp add: calls_def)
  qed
  have shape: "species_deletes S =
          (if sp_tankExpr S = sp_pipeExpr S then [sp_pipeExpr S]
           else [sp_tankExpr S, sp_pipeExpr S])" for S
    by (simp add: species_deletes_def)
  from res obtain M where "deleteObjects MSX = Some (M, calls)" ..
  with once shape show ?thesis
    unfolding calls_def SS_def TT_def N_def NT_def by blast
qed

theorem deleteObjects_releases_each_expr_once_witness:
  "\<exists>M. deleteObjects project_exprs = Some (M, [1, 3, 2, 4]) \<and>
       count_list [1, 3, 2, 4] (sp_tankExpr (Species project_exprs ! 1)) = 1 \<and>
       sp_tankExpr (Species project_exprs ! 1) = sp_pipeExpr (Species project_exprs ! 1)"
proof -
  have alloc: "allocated (Node project_exprs) (Nobjects project_exprs NODE)"
      "allocated (Link project_exprs) (Nobjects project_exprs LINK)"
      "allocated (Tank project_exprs) (Nobjects project_exprs TANK)"
      "allocated (Pattern project_exprs) (Nobjects project_exprs PATTERN)"
      "allocated (Species project_exprs) (Nobjects project_exprs SPECIES)"
      "allocated (Term project_exprs) (Nobjects project_exprs TERM_OBJ)"
    by (simp_all add: allocated_def in_array_def project_exprs_def project0_def)
  have two: "{1..2::int} = {1, 2}" by auto
  have one: "{1..1::int} = {1}" by auto
  have excl: "exprs_exclusive project_exprs"
    by (simp add: exprs_exclusive_def project_exprs_def project0_def owned_exprs_def
        Sspecies0_def Sterm0_def two one)
  from deleteObjects_releases_each_expr_once [OF alloc excl]
  obtain M calls where d: "deleteObjects project_exprs = Some (M, calls)"
    and c: "calls = concat (map species_deletes
              (take (nat (Nobjects project_exprs SPECIES)) (drop 1 (Species project_exprs))))
             @ map tm_expr (take (nat (Nobjects project_exprs TERM_OBJ)) (drop 1 (Term project_exprs)))"
    and o: "\<forall>i \<in> {1..Nobjects project_exprs SPECIES}.
        \<forall>p \<in> owned_exprs (Species project_exprs ! nat i). count_list calls p = 1"
    by blast
  from c have calls: "calls = [1, 3, 2, 4]"
    by (simp add: project_exprs_def project0_def species_deletes_def Sspecies0_def Sterm0_def)
  have "sp_tankExpr (Species project_exprs ! 1) \<in> owned_exprs (Species project_exprs ! nat 1)"
    by (simp add: project_exprs_def owned_exprs_def Sspecies0_def)
  moreover have "(1::int) \<in> {1..Nobjects project_exprs SPECIES}"
    by (simp add: project_exprs_def project0_def)
  ultimately have "count_list calls (sp_tankExpr (Species project_exprs ! 1)) = 1"
    using o by (metis nat_1)
  with d calls show ?thesis
    by (simp add: project_exprs_def Sspecies0_def)
qed

section \<open>The lifecycle guard\<close>

text \<open>
  What the guards of the toolkit functions do on a project whose flags are unset: the
  call returns \<^verbatim>\<open>ERR_MSX_NOT_OPENED\<close> and the project is unchanged. The add calls,
  \<^verbatim>\<open>MSXsetReport\<close> and \<^verbatim>\<open>MSXsetHydraulics\<close> test \<^verbatim>\<open>ProjectOpened\<close> and \<^verbatim>\<open>QualityOpened\<close>;
  \<^verbatim>\<open>MSXaddpattern\<close>, the other setters and \<^verbatim>\<open>MSXstep\<close> test \<^verbatim>\<open>ProjectOpened\<close> only. The
  sources hold no flag for a project that has been initialized or is stepping, and
  what \<^verbatim>\<open>MSXstep\<close> does on an opened project is decided by \<^verbatim>\<open>MSXqual_step\<close>, outside the
  sources.
\<close>

lemma not_opened_network:
  assumes "not_opened MSX"
  shows "MSXaddNode ext MSX oid = (ERR_MSX_NOT_OPENED, MSX)"
    and "MSXaddTank ext MSX oid v0 mm vmix = (ERR_MSX_NOT_OPENED, MSX)"
    and "MSXaddReservoir ext MSX oid v0 mm vmix = (ERR_MSX_NOT_OPENED, MSX)"
    and "MSXaddLink ext MSX oid n1 n2 len diam rough = (ERR_MSX_NOT_OPENED, MSX)"
    and "MSXaddOption ext MSX opt v = (ERR_MSX_NOT_OPENED, MSX)"
  using assms
  by (simp_all add: MSXaddNode_def MSXaddTank_def MSXaddReservoir_def add_tank_def
      MSXaddLink_def MSXaddOption_def)

lemma not_opened_chemistry:
  assumes "not_opened MSX"
  shows "kind = BULK \<or> kind = WALL \<Longrightarrow>
           MSXaddSpecies ext MSX oid kind units aTol rTol = Some (ERR_MSX_NOT_OPENED, MSX)"
    and "MSXaddCoefficeint ext MSX ty oid x = Some (ERR_MSX_NOT_OPENED, MSX)"
    and "MSXaddTerm ext MSX oid eq = Some (ERR_MSX_NOT_OPENED, MSX)"
    and "MSXaddExpression ext MSX ty et sp eq = Some (ERR_MSX_NOT_OPENED, MSX)"
    and "MSXaddSource ext MSX st nid sid x tp = Some (ERR_MSX_NOT_OPENED, MSX)"
    and "MSXaddQuality ext MSX qt sid x oid = Some (ERR_MSX_NOT_OPENED, MSX)"
    and "MSXaddParameter ext MSX pt pid x oid = Some (ERR_MSX_NOT_OPENED, MSX)"
    and "MSXsetReport ext MSX rt oid prec = Some (ERR_MSX_NOT_OPENED, MSX)"
    and "MSXsetHydraulics MSX ds hs fs = Some (ERR_MSX_NOT_OPENED, MSX)"
  using assms
  by (simp_all add: MSXaddSpecies_def MSXaddCoefficeint_def MSXaddTerm_def
      MSXaddExpression_def MSXaddSource_def MSXaddQuality_def MSXaddParameter_def
      MSXsetReport_def MSXsetHydraulics_def)

lemma not_project_opened:
  assumes "\<not> ProjectOpened MSX"
  shows "MSXaddpattern MSX oid = Some (ERR_MSX_NOT_OPENED, MSX)"
    and "MSXsetconstant MSX i x = Some (ERR_MSX_NOT_OPENED, MSX)"
    and "MSXsetparameter MSX ty i j x = Some (ERR_MSX_NOT_OPENED, MSX)"
    and "MSXsetinitqual MSX ty i j x = Some (ERR_MSX_NOT_OPENED, MSX)"
    and "MSXsetsource MSX i j st x k = Some (ERR_MSX_NOT_OPENED, MSX)"
    and "MSXsetpattern MSX i ms k = Some (ERR_MSX_NOT_OPENED, MSX)"
    and "MSXsetpatternvalue MSX i j x = Some (ERR_MSX_NOT_OPENED, MSX)"
    and "MSXstep ext MSX t tleft = Some (ERR_MSX_NOT_OPENED, t, tleft, MSX)"
  using assms
  by (simp_all add: MSXaddpattern_def MSXsetconstant_def MSXsetparameter_def
      MSXsetinitqual_def MSXsetsource_def MSXsetpattern_def MSXsetpatternvalue_def
      MSXstep_def)

text \<open>
  \<^verbatim>\<open>MSXaddSpecies\<close> tests the species kind before the lifecycle flags: on a project that
  is not opened, a call with a kind other than \<^verbatim>\<open>BULK\<close> (0) and \<^verbatim>\<open>WALL\<close> (1) returns
  \<^verbatim>\<open>ERR_KEYWORD\<close> and leaves the project as it was.
\<close>

lemma addSpecies_kind_checked_before_opened:
  "MSXaddSpecies ext0 project_closed ''CL2'' 2 MG 0 0 = Some (ERR_KEYWORD, project_closed) \<and>
   \<not> returns ERR_MSX_NOT_OPENED (MSXaddSpecies ext0 project_closed ''CL2'' 2 MG 0 0) \<and>
   \<not> ProjectOpened project_closed \<and> \<not> QualityOpened project_closed"
  by (simp add: MSXaddSpecies_def BULK_def WALL_def returns_def project_closed_def project0_def)

end
